theory Spec2Isabelle
  imports Complex_Main "HOL-Library.Word" "HOL-Library.Monad_Syntax"
begin

unbundle bit_operations_syntax

section \<open>Type model (include/type_system.h, types/type_system.cpp)\<close>

text \<open>
  The class hierarchy below \<open>Type\<close> is a closed family, one constructor per subclass.
  Owned sub-types (\<open>unique_ptr<Type>\<close> members) are sub-terms. A \<open>const Type*\<close>
  argument that may be null is a \<open>ty option\<close>, \<open>None\<close> being the null pointer.
  An interface method's signature is a \<open>FunctionType\<close> in the source; here it is a
  \<open>ty\<close> built with the constructor \<open>FunctionType\<close>. The kind \<open>INT\<close> of the source is
  written \<open>INT_T\<close>.
\<close>

datatype TypeKind =
    INT_T | FLOAT | BOOL | STRING | VOID
  | FUNCTION | LIST | TUPLE
  | GENERIC | UNION | DISCRIMINATED_UNION | INTERFACE | UNKNOWN | ERROR_TYPE

datatype ty =
    IntType
  | FloatType
  | BoolType
  | StringType
  | VoidType
  | FunctionType "ty list" ty
  | ListType ty
  | TupleType "ty list"
  | GenericType string "ty list"
  | UnionType "ty list"
  | DiscriminatedUnionType "(string \<times> ty) list"
  | InterfaceType string "(string \<times> ty) list"
  | UnknownType
  | ErrorType string

text \<open>The fields \<open>kind\<close> and \<open>name\<close> of the base class, as each constructor sets them.\<close>

fun kind :: "ty \<Rightarrow> TypeKind" where
  "kind IntType = INT_T"
| "kind FloatType = FLOAT"
| "kind BoolType = BOOL"
| "kind StringType = STRING"
| "kind VoidType = VOID"
| "kind (FunctionType ps r) = FUNCTION"
| "kind (ListType e) = LIST"
| "kind (TupleType es) = TUPLE"
| "kind (GenericType n cs) = GENERIC"
| "kind (UnionType ts) = UNION"
| "kind (DiscriminatedUnionType vs) = DISCRIMINATED_UNION"
| "kind (InterfaceType n ms) = INTERFACE"
| "kind UnknownType = UNKNOWN"
| "kind (ErrorType m) = ERROR_TYPE"

fun name :: "ty \<Rightarrow> string" where
  "name IntType = ''int''"
| "name FloatType = ''float''"
| "name BoolType = ''bool''"
| "name StringType = ''str''"
| "name VoidType = ''void''"
| "name (FunctionType ps r) = ''function''"
| "name (ListType e) = ''list''"
| "name (TupleType es) = ''tuple''"
| "name (GenericType n cs) = n"
| "name (UnionType ts) = ''union''"
| "name (DiscriminatedUnionType vs) = ''discriminated_union''"
| "name (InterfaceType n ms) = n"
| "name UnknownType = ''unknown''"
| "name (ErrorType m) = ''error''"

definition isNumeric :: "ty \<Rightarrow> bool" where
  "isNumeric t = (kind t = INT_T \<or> kind t = FLOAT)"

definition isInteger :: "ty \<Rightarrow> bool" where
  "isInteger t = (kind t = INT_T)"

definition isFloat :: "ty \<Rightarrow> bool" where
  "isFloat t = (kind t = FLOAT)"

definition isBool :: "ty \<Rightarrow> bool" where
  "isBool t = (kind t = BOOL)"

definition isString :: "ty \<Rightarrow> bool" where
  "isString t = (kind t = STRING)"

definition isVoid :: "ty \<Rightarrow> bool" where
  "isVoid t = (kind t = VOID)"

definition isFunction :: "ty \<Rightarrow> bool" where
  "isFunction t = (kind t = FUNCTION)"

definition isUnknown :: "ty \<Rightarrow> bool" where
  "isUnknown t = (kind t = UNKNOWN)"

definition isError :: "ty \<Rightarrow> bool" where
  "isError t = (kind t = ERROR_TYPE)"

text \<open>
  \<open>getVariantType\<close> and \<open>getMethod\<close> scan the list and return the first entry with
  the given tag or name, null when there is none.
\<close>

fun getVariantType :: "(string \<times> ty) list \<Rightarrow> string \<Rightarrow> ty option" where
  "getVariantType [] tag = None"
| "getVariantType ((t, d) # vs) tag = (if t = tag then Some d else getVariantType vs tag)"

fun getMethod :: "(string \<times> ty) list \<Rightarrow> string \<Rightarrow> ty option" where
  "getMethod [] n = None"
| "getMethod ((m, s) # ms) n = (if m = n then Some s else getMethod ms n)"

definition hasMethod :: "(string \<times> ty) list \<Rightarrow> string \<Rightarrow> bool" where
  "hasMethod ms n = (getMethod ms n \<noteq> None)"

text \<open>
  The virtual \<open>equals\<close>. The base implementation compares \<open>kind\<close> and \<open>name\<close>;
  \<open>FunctionType\<close>, \<open>ListType\<close>, \<open>TupleType\<close>, \<open>UnionType\<close>,
  \<open>DiscriminatedUnionType\<close> and \<open>InterfaceType\<close> override it. \<open>IntType\<close>,
  \<open>FloatType\<close>, \<open>BoolType\<close>, \<open>StringType\<close>, \<open>VoidType\<close>, \<open>GenericType\<close>,
  \<open>UnknownType\<close> and \<open>ErrorType\<close> inherit the base implementation.
\<close>

fun equals :: "ty \<Rightarrow> ty option \<Rightarrow> bool" where
  "equals t None = False"
| "equals (FunctionType ps r) (Some other) =
     (case other of
        FunctionType qs s \<Rightarrow>
          length ps = length qs \<and> list_all2 (\<lambda>p q. equals p (Some q)) ps qs \<and> equals r (Some s)
      | _ \<Rightarrow> False)"
| "equals (ListType e) (Some other) =
     (case other of ListType f \<Rightarrow> equals e (Some f) | _ \<Rightarrow> False)"
| "equals (TupleType es) (Some other) =
     (case other of
        TupleType fs \<Rightarrow> length es = length fs \<and> list_all2 (\<lambda>e f. equals e (Some f)) es fs
      | _ \<Rightarrow> False)"
| "equals (UnionType ts) (Some other) =
     (case other of
        UnionType us \<Rightarrow>
          length ts = length us \<and> list_all (\<lambda>t. list_ex (\<lambda>u. equals t (Some u)) us) ts
      | _ \<Rightarrow> False)"
| "equals (DiscriminatedUnionType vs) (Some other) =
     (case other of
        DiscriminatedUnionType ws \<Rightarrow>
          length vs = length ws \<and>
          list_all (\<lambda>v. case getVariantType ws (fst v) of
                           None \<Rightarrow> False
                         | Some d \<Rightarrow> equals (snd v) (Some d)) vs
      | _ \<Rightarrow> False)"
| "equals (InterfaceType n ms) (Some other) =
     (case other of
        InterfaceType n' ms' \<Rightarrow>
          n = n' \<and> length ms = length ms' \<and>
          list_all (\<lambda>m. case getMethod ms' (fst m) of
                           None \<Rightarrow> False
                         | Some s \<Rightarrow> equals (snd m) (Some s)) ms
      | _ \<Rightarrow> False)"
| "equals t (Some other) = (kind t = kind other \<and> name t = name other)"


text \<open>
  The virtual \<open>isAssignableFrom\<close>. \<open>FloatType\<close>, \<open>UnionType\<close> (inherited by
  \<open>DiscriminatedUnionType\<close>, whose member \<open>types\<close> holds a clone of every variant's
  data type), \<open>InterfaceType\<close> and \<open>UnknownType\<close> override it; the base implementation
  is \<open>equals\<close>.
\<close>

fun isAssignableFrom :: "ty \<Rightarrow> ty option \<Rightarrow> bool" where
  "isAssignableFrom FloatType other =
     (case other of None \<Rightarrow> False | Some t \<Rightarrow> kind t = FLOAT \<or> kind t = INT_T)"
| "isAssignableFrom (UnionType ts) other =
     (case other of None \<Rightarrow> False | Some t \<Rightarrow> list_ex (\<lambda>u. isAssignableFrom u other) ts)"
| "isAssignableFrom (DiscriminatedUnionType vs) other =
     (case other of None \<Rightarrow> False | Some t \<Rightarrow> list_ex (\<lambda>v. isAssignableFrom (snd v) other) vs)"
| "isAssignableFrom (InterfaceType n ms) other =
     (case other of
        None \<Rightarrow> False
      | Some (InterfaceType n' ms') \<Rightarrow>
          list_all (\<lambda>m. hasMethod ms' (fst m) \<and> equals (snd m) (getMethod ms' (fst m))) ms
      | Some _ \<Rightarrow> False)"
| "isAssignableFrom UnknownType other = True"
| "isAssignableFrom t other = equals t other"

text \<open>\<open>toString\<close>: the separator is written before every element but the first.\<close>

fun join :: "string \<Rightarrow> string list \<Rightarrow> string" where
  "join sep [] = []"
| "join sep [x] = x"
| "join sep (x # y # ys) = x @ sep @ join sep (y # ys)"

fun toString :: "ty \<Rightarrow> string" where
  "toString (FunctionType ps r) = ''('' @ join '', '' (map toString ps) @ '') -> '' @ toString r"
| "toString (ListType e) = ''list['' @ toString e @ '']''"
| "toString (TupleType es) = ''tuple['' @ join '', '' (map toString es) @ '']''"
| "toString (UnionType ts) = join '' | '' (map toString ts)"
| "toString (GenericType n cs) = n"
| "toString (DiscriminatedUnionType vs) =
     join '' | '' (map (\<lambda>v. fst v @ ''('' @ toString (snd v) @ '')'') vs)"
| "toString (InterfaceType n ms) =
     ''interface '' @ n @ '' { '' @
     join ''; '' (map (\<lambda>m. fst m @ '': '' @ toString (snd m)) ms) @ '' }''"
| "toString t = name t"

text \<open>\<open>clone\<close> builds a deep copy; on values it is the identity.\<close>

definition clone :: "ty \<Rightarrow> ty" where
  "clone t = t"

subsection \<open>TypeFactory: promotion and unification\<close>

definition promoteNumericTypes :: "ty option \<Rightarrow> ty option \<Rightarrow> ty" where
  "promoteNumericTypes p1 p2 =
     (case (p1, p2) of
        (Some t1, Some t2) \<Rightarrow>
          if (isFloat t1 \<or> isFloat t2) \<and> isNumeric t1 \<and> isNumeric t2 then FloatType
          else if isInteger t1 \<and> isInteger t2 then IntType
          else ErrorType ''cannot promote non-numeric types''
      | _ \<Rightarrow> ErrorType ''null type in promotion'')"

definition unifyTypes :: "ty option \<Rightarrow> ty option \<Rightarrow> ty" where
  "unifyTypes p1 p2 =
     (case (p1, p2) of
        (Some t1, Some t2) \<Rightarrow>
          if equals t1 (Some t2) then clone t1
          else if isNumeric t1 \<and> isNumeric t2 then promoteNumericTypes (Some t1) (Some t2)
          else if isUnknown t1 then clone t2
          else if isUnknown t2 then clone t1
          else ErrorType (''cannot unify incompatible types: '' @ toString t1 @ '' and '' @ toString t2)
      | _ \<Rightarrow> ErrorType ''null type in unification'')"

text \<open>
  Tags of every discriminated union and method names of every interface inside a type are
  pairwise distinct. The constructors do not enforce this.
\<close>

fun distinctTags :: "ty \<Rightarrow> bool" where
  "distinctTags (FunctionType ps r) = (list_all distinctTags ps \<and> distinctTags r)"
| "distinctTags (ListType e) = distinctTags e"
| "distinctTags (TupleType es) = list_all distinctTags es"
| "distinctTags (GenericType n cs) = True"
| "distinctTags (UnionType ts) = list_all distinctTags ts"
| "distinctTags (DiscriminatedUnionType vs) =
     (distinct (map fst vs) \<and> list_all (\<lambda>v. distinctTags (snd v)) vs)"
| "distinctTags (InterfaceType n ms) =
     (distinct (map fst ms) \<and> list_all (\<lambda>m. distinctTags (snd m)) ms)"
| "distinctTags t = True"

section \<open>Type environment (types/type_system.cpp)\<close>

text \<open>
  \<open>scopes\<close> is a vector of maps, the global scope first and the innermost scope last.
  \<open>TypeEnvironment::define\<close> is \<open>define_name\<close> here.
\<close>

type_synonym TypeEnvironment = "(string \<rightharpoonup> ty) list"

definition newTypeEnvironment :: TypeEnvironment where
  "newTypeEnvironment = [Map.empty]"

definition pushScope :: "TypeEnvironment \<Rightarrow> TypeEnvironment" where
  "pushScope scopes = scopes @ [Map.empty]"

definition popScope :: "TypeEnvironment \<Rightarrow> TypeEnvironment" where
  "popScope scopes = (if length scopes > 1 then butlast scopes else scopes)"

definition define_name :: "TypeEnvironment \<Rightarrow> string \<Rightarrow> ty \<Rightarrow> TypeEnvironment" where
  "define_name scopes n t =
     (if scopes \<noteq> [] then butlast scopes @ [(last scopes)(n \<mapsto> t)] else scopes)"

fun lookupFrom :: "(string \<rightharpoonup> ty) list \<Rightarrow> string \<Rightarrow> ty option" where
  "lookupFrom [] n = None"
| "lookupFrom (sc # rest) n = (case sc n of Some t \<Rightarrow> Some t | None \<Rightarrow> lookupFrom rest n)"

definition lookup :: "TypeEnvironment \<Rightarrow> string \<Rightarrow> ty option" where
  "lookup scopes n = lookupFrom (rev scopes) n"

definition defineFunction :: "TypeEnvironment \<Rightarrow> string \<Rightarrow> ty \<Rightarrow> TypeEnvironment" where
  "defineFunction scopes n t = define_name scopes n t"

text \<open>
  \<open>lookupFunction\<close> returns the function type bound to the name, or null: when the name
  is unbound, when it is bound to something else than a function, when the number of
  arguments differs and when an argument is not assignable to its parameter. The
  \<open>FunctionType*\<close> it returns is given by its two fields; an element of \<open>arg_types\<close> is
  a pointer and may be null.
\<close>

definition lookupFunction ::
  "TypeEnvironment \<Rightarrow> string \<Rightarrow> ty option list \<Rightarrow> (ty list \<times> ty) option" where
  "lookupFunction scopes n arg_types =
     (case lookup scopes n of
        None \<Rightarrow> None
      | Some (FunctionType param_types return_type) \<Rightarrow>
          if length param_types \<noteq> length arg_types then None
          else if list_all2 (\<lambda>p a. isAssignableFrom p a) param_types arg_types
          then Some (param_types, return_type)
          else None
      | Some _ \<Rightarrow> None)"

section \<open>Syntax tree (include/ast.h)\<close>

text \<open>
  A number literal holds a \<open>double\<close>; every finite double is a rational number, and the
  model takes the literal's value as a \<open>rat\<close>. Children that the parser always builds are
  sub-terms; the \<open>else\<close> branch and the operand of \<open>return\<close>, which the constructors
  default to null, are options.
\<close>

datatype ExprAST =
    NumberExprAST rat
  | StringExprAST string
  | VariableExprAST string
  | BinaryExprAST char ExprAST ExprAST
  | UnaryExprAST char ExprAST
  | CallExprAST string "ExprAST list"

datatype StmtAST =
    AssignmentStmtAST string ExprAST
  | ExprStmtAST ExprAST
  | BlockStmtAST "StmtAST list"
  | IfStmtAST ExprAST StmtAST "StmtAST option"
  | WhileStmtAST ExprAST StmtAST
  | ReturnStmtAST "ExprAST option"
  | PrintStmtAST ExprAST

record FunctionAST =
  fname :: string
  args :: "string list"
  body :: StmtAST

section \<open>Type checker (include/type_checker.h, types/type_checker.cpp)\<close>

record InferenceContext =
  variable_types :: "string \<rightharpoonup> ty"
  modified_variables :: "string set"

definition newInferenceContext :: InferenceContext where
  "newInferenceContext = \<lparr>variable_types = Map.empty, modified_variables = {}\<rparr>"

definition setVariableType :: "InferenceContext \<Rightarrow> string \<Rightarrow> ty \<Rightarrow> InferenceContext" where
  "setVariableType ctx n t = ctx\<lparr>variable_types := (variable_types ctx)(n \<mapsto> t)\<rparr>"

definition getVariableType :: "InferenceContext \<Rightarrow> string \<Rightarrow> ty option" where
  "getVariableType ctx n = variable_types ctx n"

definition markVariableModified :: "InferenceContext \<Rightarrow> string \<Rightarrow> InferenceContext" where
  "markVariableModified ctx n = ctx\<lparr>modified_variables := insert n (modified_variables ctx)\<rparr>"

text \<open>\<open>InferenceContext::clone\<close> copies both members; on values it is the identity.\<close>

definition cloneContext :: "InferenceContext \<Rightarrow> InferenceContext" where
  "cloneContext ctx = ctx"

text \<open>
  \<open>merge\<close> visits every entry of the other context once, and each visit reads and writes
  the entry of the same name only, so the loop is this map, name by name.
\<close>

definition merge :: "InferenceContext \<Rightarrow> InferenceContext \<Rightarrow> InferenceContext" where
  "merge this other =
     \<lparr>variable_types = (\<lambda>n.
        case variable_types other n of
          None \<Rightarrow> variable_types this n
        | Some other_type \<Rightarrow>
            (case variable_types this n of
               None \<Rightarrow> Some (clone other_type)
             | Some this_type \<Rightarrow>
                 let common = unifyTypes (Some this_type) (Some other_type)
                 in if \<not> isError common then Some common else Some this_type)),
      modified_variables = modified_variables this \<union> modified_variables other\<rparr>"

record TypeCheckResult =
  type :: "ty option"
  errors :: "string list"
  warnings :: "string list"

definition result :: "ty option \<Rightarrow> TypeCheckResult" where
  "result t = \<lparr>type = t, errors = [], warnings = []\<rparr>"

definition hasErrors :: "TypeCheckResult \<Rightarrow> bool" where
  "hasErrors r = (errors r \<noteq> [])"

definition addError :: "TypeCheckResult \<Rightarrow> string \<Rightarrow> TypeCheckResult" where
  "addError r e = r\<lparr>errors := errors r @ [e]\<rparr>"

definition errorResult :: "string \<Rightarrow> TypeCheckResult" where
  "errorResult e = addError (result None) e"

record TypeChecker =
  type_env :: TypeEnvironment
  current_context :: InferenceContext

subsection \<open>Messages (TypeErrorReporter)\<close>

definition formatTypeError :: "string \<Rightarrow> ty option \<Rightarrow> ty option \<Rightarrow> string" where
  "formatTypeError context expected actual =
     ''Type error in '' @ context @ '': expected '' @
     (case expected of Some t \<Rightarrow> toString t | None \<Rightarrow> ''unknown'') @ '', got '' @
     (case actual of Some t \<Rightarrow> toString t | None \<Rightarrow> ''unknown'')"

definition formatUndefinedVariable :: "string \<Rightarrow> string" where
  "formatUndefinedVariable n = ''Undefined variable: '' @ n"

definition formatUndefinedFunction :: "string \<Rightarrow> string" where
  "formatUndefinedFunction n = ''Undefined function: '' @ n"

subsection \<open>Lookups and compatibility\<close>

definition lookupVariable :: "TypeChecker \<Rightarrow> string \<Rightarrow> ty option" where
  "lookupVariable tc n =
     (case getVariableType (current_context tc) n of
        Some context_type \<Rightarrow> Some context_type
      | None \<Rightarrow> lookup (type_env tc) n)"

definition isAssignable :: "ty option \<Rightarrow> ty option \<Rightarrow> bool" where
  "isAssignable target source =
     (case (target, source) of
        (Some t, Some s) \<Rightarrow> isAssignableFrom t (Some s)
      | _ \<Rightarrow> False)"

definition isComparable :: "ty option \<Rightarrow> ty option \<Rightarrow> bool" where
  "isComparable left right =
     (case (left, right) of
        (Some l, Some r) \<Rightarrow>
          equals l (Some r) \<or> (isNumeric l \<and> isNumeric r) \<or> (isString l \<and> isString r)
      | _ \<Rightarrow> False)"

subsection \<open>Expression inference\<close>

text \<open>
  \<open>static_cast<int>\<close> of a double truncates towards zero. When the truncated value does
  not fit an \<open>int\<close> the conversion is undefined in C++; the model returns what the
  conversion instruction of x86-64 returns there, \<open>INT_MIN\<close>.
\<close>

definition INT_MIN :: int where
  "INT_MIN = - (2 ^ 31)"

definition INT_MAX :: int where
  "INT_MAX = 2 ^ 31 - 1"

definition trunc :: "rat \<Rightarrow> int" where
  "trunc v = (if 0 \<le> v then \<lfloor>v\<rfloor> else \<lceil>v\<rceil>)"

definition static_cast_int :: "rat \<Rightarrow> int" where
  "static_cast_int v =
     (if INT_MIN \<le> trunc v \<and> trunc v \<le> INT_MAX then trunc v else INT_MIN)"

definition inferNumberType :: "rat \<Rightarrow> TypeCheckResult" where
  "inferNumberType v =
     (if v = of_int (static_cast_int v) then result (Some IntType)
      else result (Some FloatType))"

text \<open>
  The checker functions return \<open>None\<close> where the source would dereference a null
  \<open>type\<close> of a result; binding a \<open>ty option\<close> in the option monad is that dereference.
\<close>

definition inferBinaryType_switch ::
  "char \<Rightarrow> ty option \<Rightarrow> ty option \<Rightarrow> TypeCheckResult option" where
  "inferBinaryType_switch op left_type right_type =
     (if op \<in> {CHR ''+'', CHR ''-'', CHR ''*'', CHR ''/'', CHR ''%''} then
        do { l \<leftarrow> left_type; r \<leftarrow> right_type;
             Some (if isNumeric l \<and> isNumeric r
                   then result (Some (promoteNumericTypes (Some l) (Some r)))
                   else errorResult (''Arithmetic operation requires numeric types, got: '' @
                          toString l @ '' '' @ [op] @ '' '' @ toString r)) }
      else if op \<in> {CHR ''<'', CHR ''>'', CHR ''='', CHR ''!''} then
        (if isComparable left_type right_type then Some (result (Some BoolType))
         else do { l \<leftarrow> left_type; r \<leftarrow> right_type;
                   Some (errorResult (''Cannot compare incompatible types: '' @
                          toString l @ '' and '' @ toString r)) })
      else Some (errorResult (''Unknown binary operator: '' @ [op])))"

definition inferUnaryType_switch :: "char \<Rightarrow> ty option \<Rightarrow> TypeCheckResult option" where
  "inferUnaryType_switch op operand_type =
     (if op = CHR ''-'' then
        do { t \<leftarrow> operand_type;
             Some (if isNumeric t then result (Some (clone t))
                   else errorResult (''Unary minus requires numeric type, got: '' @ toString t)) }
      else if op = CHR ''!'' then Some (result (Some BoolType))
      else Some (errorResult (''Unknown unary operator: '' @ [op])))"

fun inferExpressionType :: "TypeChecker \<Rightarrow> ExprAST \<Rightarrow> TypeCheckResult option"
  and inferArgs ::
    "TypeChecker \<Rightarrow> ExprAST list \<Rightarrow> ty option list \<Rightarrow> (TypeCheckResult + ty option list) option"
where
  "inferExpressionType tc (NumberExprAST v) = Some (inferNumberType v)"
| "inferExpressionType tc (StringExprAST v) = Some (result (Some StringType))"
| "inferExpressionType tc (VariableExprAST n) =
     Some (case lookupVariable tc n of
             None \<Rightarrow> errorResult (formatUndefinedVariable n)
           | Some t \<Rightarrow> result (Some (clone t)))"
| "inferExpressionType tc (BinaryExprAST op lhs rhs) =
     do { left_result \<leftarrow> inferExpressionType tc lhs;
          if hasErrors left_result then Some left_result
          else do { right_result \<leftarrow> inferExpressionType tc rhs;
                    if hasErrors right_result then Some right_result
                    else inferBinaryType_switch op (type left_result) (type right_result) } }"
| "inferExpressionType tc (UnaryExprAST op operand) =
     do { operand_result \<leftarrow> inferExpressionType tc operand;
          if hasErrors operand_result then Some operand_result
          else inferUnaryType_switch op (type operand_result) }"
| "inferExpressionType tc (CallExprAST callee as) =
     do { r \<leftarrow> inferArgs tc as [];
          case r of
            Inl arg_result \<Rightarrow> Some arg_result
          | Inr arg_types \<Rightarrow>
              Some (case lookupFunction (type_env tc) callee arg_types of
                      None \<Rightarrow> errorResult (formatUndefinedFunction callee)
                    | Some (param_types, return_type) \<Rightarrow> result (Some (clone return_type))) }"
| "inferArgs tc [] arg_types = Some (Inr arg_types)"
| "inferArgs tc (a # as) arg_types =
     do { arg_result \<leftarrow> inferExpressionType tc a;
          if hasErrors arg_result then Some (Inl arg_result)
          else inferArgs tc as (arg_types @ [type arg_result]) }"

subsection \<open>Statement checking\<close>

text \<open>
  Statement checks change the checker: they return the result and the checker after the
  call.
\<close>

definition defineVariable :: "TypeChecker \<Rightarrow> string \<Rightarrow> ty \<Rightarrow> TypeChecker" where
  "defineVariable tc n t = tc\<lparr>type_env := define_name (type_env tc) n t\<rparr>"

definition checkAssignment ::
  "TypeChecker \<Rightarrow> string \<Rightarrow> ExprAST \<Rightarrow> (TypeCheckResult \<times> TypeChecker) option" where
  "checkAssignment tc n v =
     do { expr_result \<leftarrow> inferExpressionType tc v;
          if hasErrors expr_result then Some (expr_result, tc)
          else (case lookupVariable tc n of
                  Some existing_type \<Rightarrow>
                    if \<not> isAssignable (Some existing_type) (type expr_result)
                    then Some (errorResult (formatTypeError
                                 (''assignment to variable '' @ [CHR 0x27] @ n @ [CHR 0x27])
                                 (Some existing_type) (type expr_result)), tc)
                    else Some (result (Some VoidType),
                               tc\<lparr>current_context := markVariableModified (current_context tc) n\<rparr>)
                | None \<Rightarrow>
                    do { t \<leftarrow> type expr_result;
                         let tc1 = defineVariable tc n (clone t);
                         let tc2 = tc1\<lparr>current_context :=
                                       setVariableType (current_context tc1) n (clone t)\<rparr>;
                         Some (result (Some VoidType),
                               tc2\<lparr>current_context :=
                                      markVariableModified (current_context tc2) n\<rparr>) }) }"

fun checkStatement :: "TypeChecker \<Rightarrow> StmtAST \<Rightarrow> (TypeCheckResult \<times> TypeChecker) option"
  and checkBlock_loop ::
    "TypeChecker \<Rightarrow> TypeCheckResult \<Rightarrow> StmtAST list \<Rightarrow> (TypeCheckResult \<times> TypeChecker) option"
where
  "checkStatement tc (AssignmentStmtAST n v) = checkAssignment tc n v"
| "checkStatement tc (ReturnStmtAST v) =
     (case v of
        Some e \<Rightarrow> do { r \<leftarrow> inferExpressionType tc e; Some (r, tc) }
      | None \<Rightarrow> Some (result (Some VoidType), tc))"
| "checkStatement tc (IfStmtAST condition then_stmt else_stmt) =
     do { cond_result \<leftarrow> inferExpressionType tc condition;
          if hasErrors cond_result then Some (cond_result, tc)
          else do {
            cond_type \<leftarrow> type cond_result;
            if \<not> isBool cond_type \<and> \<not> isNumeric cond_type
            then Some (errorResult (''If condition must be boolean or numeric, got: '' @
                         toString cond_type), tc)
            else do {
              let then_context = cloneContext (current_context tc);
              (then_result, tc1) \<leftarrow> checkStatement tc then_stmt;
              (res, then_context', tc2) \<leftarrow>
                (case else_stmt of
                   None \<Rightarrow> Some (result None, then_context, tc1)
                 | Some e \<Rightarrow> do {
                     let else_context = cloneContext (current_context tc1);
                     (else_result, tc2) \<leftarrow> checkStatement tc1 e;
                     Some ((result None)\<lparr>errors := errors else_result\<rparr>,
                           merge then_context else_context, tc2) });
              let res' = res\<lparr>errors := errors res @ errors then_result\<rparr>;
              Some (res'\<lparr>type := Some VoidType\<rparr>,
                    tc2\<lparr>current_context := then_context'\<rparr>) } } }"
| "checkStatement tc (WhileStmtAST condition body_stmt) =
     do { cond_result \<leftarrow> inferExpressionType tc condition;
          if hasErrors cond_result then Some (cond_result, tc)
          else do {
            cond_type \<leftarrow> type cond_result;
            if \<not> isBool cond_type \<and> \<not> isNumeric cond_type
            then Some (errorResult (''While condition must be boolean or numeric, got: '' @
                         toString cond_type), tc)
            else do {
              (body_result, tc1) \<leftarrow> checkStatement tc body_stmt;
              Some ((result (Some VoidType))\<lparr>errors := errors body_result\<rparr>, tc1) } } }"
| "checkStatement tc (PrintStmtAST e) =
     do { expr_result \<leftarrow> inferExpressionType tc e;
          if hasErrors expr_result then Some (expr_result, tc)
          else Some (result (Some VoidType), tc) }"
| "checkStatement tc (BlockStmtAST statements) =
     do { (res, tc1) \<leftarrow>
            checkBlock_loop (tc\<lparr>type_env := pushScope (type_env tc)\<rparr>)
              (result (Some VoidType)) statements;
          Some (res, tc1\<lparr>type_env := popScope (type_env tc1)\<rparr>) }"
| "checkStatement tc (ExprStmtAST e) =
     do { r \<leftarrow> inferExpressionType tc e; Some (r, tc) }"
| "checkBlock_loop tc res [] = Some (res, tc)"
| "checkBlock_loop tc res (statement # rest) =
     do { (stmt_result, tc1) \<leftarrow> checkStatement tc statement;
          let res1 = res\<lparr>errors := errors res @ errors stmt_result\<rparr>;
          let res2 = (case type stmt_result of
                        Some t \<Rightarrow> if \<not> isVoid t then res1\<lparr>type := Some (clone t)\<rparr> else res1
                      | None \<Rightarrow> res1);
          checkBlock_loop tc1 res2 rest }"

text \<open>\<open>checkFunction\<close>: every parameter is a Float in a scope of its own.\<close>

definition checkFunction :: "TypeChecker \<Rightarrow> FunctionAST \<Rightarrow> (TypeCheckResult \<times> TypeChecker) option" where
  "checkFunction tc function =
     do { let tc1 = tc\<lparr>type_env := pushScope (type_env tc)\<rparr>;
          let tc2 = fold (\<lambda>param_name c. defineVariable c param_name FloatType) (args function) tc1;
          (body_result, tc3) \<leftarrow> checkStatement tc2 (body function);
          let tc4 = tc3\<lparr>type_env := popScope (type_env tc3)\<rparr>;
          Some (\<lparr>type = (case type body_result of Some t \<Rightarrow> Some (clone t) | None \<Rightarrow> Some VoidType),
                 errors = errors body_result, warnings = []\<rparr>, tc4) }"

text \<open>The checker as its constructor leaves it: the builtin \<open>print\<close> in the global scope.\<close>

definition newTypeChecker :: TypeChecker where
  "newTypeChecker =
     \<lparr>type_env = defineFunction newTypeEnvironment ''print'' (FunctionType [UnknownType] VoidType),
      current_context = newInferenceContext\<rparr>"

text \<open>
  The function \<open>def f(c): if c: x = 1 else: x = 2.5\<close> as the parser builds it: the body
  of the function and both branches are blocks.
\<close>

definition if_merge_function :: FunctionAST where
  "if_merge_function =
     \<lparr>fname = ''f'', args = [''c''],
      body = BlockStmtAST
        [IfStmtAST (VariableExprAST ''c'')
           (BlockStmtAST [AssignmentStmtAST ''x'' (NumberExprAST 1)])
           (Some (BlockStmtAST [AssignmentStmtAST ''x'' (NumberExprAST (5 / 2))]))]\<rparr>"

section \<open>Generic instantiator and constraint solver (types/type_system.cpp)\<close>

type_synonym GenericInstantiator = "string \<rightharpoonup> ty"

definition getBinding :: "GenericInstantiator \<Rightarrow> string \<Rightarrow> ty option" where
  "getBinding type_bindings var_name = type_bindings var_name"

definition bindTypeVariable :: "GenericInstantiator \<Rightarrow> string \<Rightarrow> ty \<Rightarrow> GenericInstantiator" where
  "bindTypeVariable type_bindings var_name concrete_type = type_bindings(var_name \<mapsto> concrete_type)"

datatype ConstraintKind = EQUALS | SUBTYPE | IMPLEMENTS | NUMERIC | COMPARABLE

text \<open>
  A constraint holds its kind and two owned pointers, \<open>left\<close> and \<open>right\<close>; either may
  be null, and \<open>right\<close> is null by default.
\<close>

datatype Constraint = Constraint ConstraintKind "ty option" "ty option"

text \<open>
  What a call of \<open>solve\<close> does: it returns a value and leaves the bindings changed, or it
  dereferences a null pointer.
\<close>

datatype solve_outcome = NullDereference | Returned bool GenericInstantiator

text \<open>
  \<open>parameter_name\<close> is a member of \<open>GenericType\<close>; the source reads it after a
  \<open>static_cast\<close> that it guards by a test of \<open>kind\<close>. On another type the cast is
  invalid, which is \<open>None\<close>.
\<close>

fun parameter_name :: "ty \<Rightarrow> string option" where
  "parameter_name (GenericType n cs) = Some n"
| "parameter_name t = None"

text \<open>
  The body of the \<open>for\<close> loop of \<open>solve\<close> for one constraint: the bindings and the flag
  \<open>changed\<close> before and after. \<open>None\<close> is the dereference of a null \<open>left\<close> or
  \<open>right\<close>.
\<close>

definition bindIfUnbound ::
  "GenericInstantiator \<Rightarrow> bool \<Rightarrow> string \<Rightarrow> ty \<Rightarrow> GenericInstantiator \<times> bool" where
  "bindIfUnbound b changed n t =
     (if getBinding b n = None then (bindTypeVariable b n t, True) else (b, changed))"

fun solve_constraint ::
  "Constraint \<Rightarrow> GenericInstantiator \<Rightarrow> bool \<Rightarrow> (GenericInstantiator \<times> bool) option" where
  "solve_constraint (Constraint EQUALS left right) b changed =
     do { l \<leftarrow> left; r \<leftarrow> right;
          if kind l = GENERIC \<and> kind r \<noteq> GENERIC
          then do { n \<leftarrow> parameter_name l; Some (bindIfUnbound b changed n (clone r)) }
          else if kind r = GENERIC \<and> kind l \<noteq> GENERIC
          then do { n \<leftarrow> parameter_name r; Some (bindIfUnbound b changed n (clone l)) }
          else Some (b, changed) }"
| "solve_constraint (Constraint NUMERIC left right) b changed =
     do { l \<leftarrow> left;
          if kind l = GENERIC
          then do { n \<leftarrow> parameter_name l; Some (bindIfUnbound b changed n IntType) }
          else Some (b, changed) }"
| "solve_constraint (Constraint COMPARABLE left right) b changed =
     do { l \<leftarrow> left;
          if kind l = GENERIC
          then do { n \<leftarrow> parameter_name l; Some (bindIfUnbound b changed n IntType) }
          else Some (b, changed) }"
| "solve_constraint (Constraint k left right) b changed = Some (b, changed)"

text \<open>One run of the \<open>for\<close> loop over all constraints.\<close>

fun solve_pass ::
  "Constraint list \<Rightarrow> GenericInstantiator \<Rightarrow> bool \<Rightarrow> (GenericInstantiator \<times> bool) option" where
  "solve_pass [] b changed = Some (b, changed)"
| "solve_pass (c # cs) b changed =
     do { (b', changed') \<leftarrow> solve_constraint c b changed; solve_pass cs b' changed' }"

text \<open>
  The \<open>while (changed)\<close> loop, entered with \<open>changed = true\<close>: each iteration sets
  \<open>changed\<close> to false and runs the \<open>for\<close> loop. \<open>None\<close> is a loop that never ends.
\<close>

partial_function (option) solve :: "Constraint list \<Rightarrow> GenericInstantiator \<Rightarrow> solve_outcome option" where
  "solve constraints b =
     (case solve_pass constraints b False of
        None \<Rightarrow> Some NullDereference
      | Some (b', changed) \<Rightarrow> if changed then solve constraints b' else Some (Returned True b'))"

text \<open>The generic parameter names that stand as the left or right side of a constraint.\<close>

definition genericName :: "ty option \<Rightarrow> string set" where
  "genericName t = set_option (Option.bind t parameter_name)"

fun constraintNames :: "Constraint \<Rightarrow> string set" where
  "constraintNames (Constraint k left right) = genericName left \<union> genericName right"

definition genericNames :: "Constraint list \<Rightarrow> string set" where
  "genericNames constraints = (\<Union>c \<in> set constraints. constraintNames c)"

text \<open>
  The pointers that the loop dereferences are not null: both sides of an \<open>EQUALS\<close>
  constraint, the left side of a \<open>NUMERIC\<close> or \<open>COMPARABLE\<close> constraint.
\<close>

fun nonNull :: "Constraint \<Rightarrow> bool" where
  "nonNull (Constraint EQUALS left right) = (left \<noteq> None \<and> right \<noteq> None)"
| "nonNull (Constraint NUMERIC left right) = (left \<noteq> None)"
| "nonNull (Constraint COMPARABLE left right) = (left \<noteq> None)"
| "nonNull (Constraint k left right) = True"

text \<open>A constraint set with two generic parameters, \<open>T\<close> and \<open>U\<close>.\<close>

definition example_constraints :: "Constraint list" where
  "example_constraints =
     [Constraint NUMERIC (Some (GenericType ''U'' [])) None,
      Constraint EQUALS (Some FloatType) (Some (GenericType ''T'' [])),
      Constraint EQUALS (Some (GenericType ''U'' [])) (Some StringType)]"

section \<open>Intermediate representation\<close>

text \<open>
  The passes work on LLVM's intermediate representation, which is not part of this
  program. The model keeps what the passes look at and build: a value is a constant, a
  function argument or an instruction with its operands, an operand being the value it
  uses. Doubles are taken as rational numbers: arithmetic on them is exact, rounding,
  infinities and NaN are not modelled.
\<close>

datatype IRType = I1 | I32 | I64 | Double

fun bits :: "IRType \<Rightarrow> nat" where
  "bits I1 = 1"
| "bits I32 = 32"
| "bits I64 = 64"
| "bits Double = 64"

definition isIntegerTy :: "IRType \<Rightarrow> bool" where
  "isIntegerTy t = (t \<noteq> Double)"

datatype Opcode = FAdd | FSub | FMul | FDiv | FRem | Add | Shl | AShr

datatype FPredicate =
    FCMP_FALSE | FCMP_OEQ | FCMP_OGT | FCMP_OGE | FCMP_OLT | FCMP_OLE | FCMP_ONE | FCMP_ORD
  | FCMP_UNO | FCMP_UEQ | FCMP_UGT | FCMP_UGE | FCMP_ULT | FCMP_ULE | FCMP_UNE | FCMP_TRUE

datatype IPredicate = ICMP_EQ | ICMP_NE | ICMP_SLT | ICMP_SLE | ICMP_SGT | ICMP_SGE

datatype CastOp = Trunc | ZExt | SExt | FPToUI | FPToSI | UIToFP | SIToFP | BitCast

datatype Value =
    ConstantFP rat
  | ConstantInt IRType int
  | Argument nat IRType
  | BinaryOperator Opcode Value Value
  | FCmpInst FPredicate Value Value
  | ICmpInst IPredicate Value Value
  | CastInst CastOp Value IRType

fun typeOf :: "Value \<Rightarrow> IRType" where
  "typeOf (ConstantFP v) = Double"
| "typeOf (ConstantInt t n) = t"
| "typeOf (Argument i t) = t"
| "typeOf (BinaryOperator opc a b) = typeOf a"
| "typeOf (FCmpInst p a b) = I1"
| "typeOf (ICmpInst p a b) = I1"
| "typeOf (CastInst opc a t) = t"

text \<open>
  \<open>CastInst::castIsValid\<close> and \<open>CastInst::getCastOpcode\<close> (source and destination
  both taken as unsigned, as the pass calls it) on the four types of the model.
\<close>

fun castIsValid :: "CastOp \<Rightarrow> IRType \<Rightarrow> IRType \<Rightarrow> bool" where
  "castIsValid Trunc src dst = (isIntegerTy src \<and> isIntegerTy dst \<and> bits dst < bits src)"
| "castIsValid ZExt src dst = (isIntegerTy src \<and> isIntegerTy dst \<and> bits src < bits dst)"
| "castIsValid SExt src dst = (isIntegerTy src \<and> isIntegerTy dst \<and> bits src < bits dst)"
| "castIsValid FPToUI src dst = (src = Double \<and> isIntegerTy dst)"
| "castIsValid FPToSI src dst = (src = Double \<and> isIntegerTy dst)"
| "castIsValid UIToFP src dst = (isIntegerTy src \<and> dst = Double)"
| "castIsValid SIToFP src dst = (isIntegerTy src \<and> dst = Double)"
| "castIsValid BitCast src dst = (bits src = bits dst)"

definition getCastOpcode :: "IRType \<Rightarrow> IRType \<Rightarrow> CastOp" where
  "getCastOpcode src dst =
     (if isIntegerTy dst then
        (if isIntegerTy src then
           (if bits dst < bits src then Trunc
            else if bits src < bits dst then ZExt
            else BitCast)
         else FPToUI)
      else (if isIntegerTy src then UIToFP else BitCast))"

subsection \<open>Values at run time\<close>

text \<open>
  An integer of \<open>b\<close> bits is \<open>IntVal b v\<close> with \<open>0 \<le> v < 2 ^ b\<close>; \<open>signed b v\<close>
  reads it as two's complement. Evaluation is \<open>None\<close> on ill-typed operands, on a
  poison result (a shift by the width or more, a float that does not fit the integer
  type) and on what the model does not cover (division by zero, a bit cast between an
  integer and a double).
\<close>

datatype RtVal = IntVal nat int | FloatVal rat

definition signed :: "nat \<Rightarrow> int \<Rightarrow> int" where
  "signed b v = signed_take_bit (b - 1) v"

fun evalBinary :: "Opcode \<Rightarrow> RtVal \<Rightarrow> RtVal \<Rightarrow> RtVal option" where
  "evalBinary FAdd (FloatVal x) (FloatVal y) = Some (FloatVal (x + y))"
| "evalBinary FSub (FloatVal x) (FloatVal y) = Some (FloatVal (x - y))"
| "evalBinary FMul (FloatVal x) (FloatVal y) = Some (FloatVal (x * y))"
| "evalBinary FDiv (FloatVal x) (FloatVal y) = (if y = 0 then None else Some (FloatVal (x / y)))"
| "evalBinary FRem (FloatVal x) (FloatVal y) =
     (if y = 0 then None else Some (FloatVal (x - y * of_int (trunc (x / y)))))"
| "evalBinary Add (IntVal b x) (IntVal b' y) =
     (if b = b' then Some (IntVal b (take_bit b (x + y))) else None)"
| "evalBinary Shl (IntVal b x) (IntVal b' k) =
     (if k < int b then Some (IntVal b (take_bit b (x * 2 ^ nat k))) else None)"
| "evalBinary AShr (IntVal b x) (IntVal b' k) =
     (if k < int b then Some (IntVal b (take_bit b (signed b x div 2 ^ nat k))) else None)"
| "evalBinary opc x y = None"

fun evalFCmp :: "FPredicate \<Rightarrow> rat \<Rightarrow> rat \<Rightarrow> bool" where
  "evalFCmp FCMP_FALSE x y = False"
| "evalFCmp FCMP_OEQ x y = (x = y)"
| "evalFCmp FCMP_OGT x y = (x > y)"
| "evalFCmp FCMP_OGE x y = (x \<ge> y)"
| "evalFCmp FCMP_OLT x y = (x < y)"
| "evalFCmp FCMP_OLE x y = (x \<le> y)"
| "evalFCmp FCMP_ONE x y = (x \<noteq> y)"
| "evalFCmp FCMP_ORD x y = True"
| "evalFCmp FCMP_UNO x y = False"
| "evalFCmp FCMP_UEQ x y = (x = y)"
| "evalFCmp FCMP_UGT x y = (x > y)"
| "evalFCmp FCMP_UGE x y = (x \<ge> y)"
| "evalFCmp FCMP_ULT x y = (x < y)"
| "evalFCmp FCMP_ULE x y = (x \<le> y)"
| "evalFCmp FCMP_UNE x y = (x \<noteq> y)"
| "evalFCmp FCMP_TRUE x y = True"

fun evalICmp :: "IPredicate \<Rightarrow> int \<Rightarrow> int \<Rightarrow> bool" where
  "evalICmp ICMP_EQ x y = (x = y)"
| "evalICmp ICMP_NE x y = (x \<noteq> y)"
| "evalICmp ICMP_SLT x y = (x < y)"
| "evalICmp ICMP_SLE x y = (x \<le> y)"
| "evalICmp ICMP_SGT x y = (x > y)"
| "evalICmp ICMP_SGE x y = (x \<ge> y)"

fun castValue :: "CastOp \<Rightarrow> RtVal \<Rightarrow> IRType \<Rightarrow> RtVal option" where
  "castValue Trunc (IntVal b x) t = Some (IntVal (bits t) (take_bit (bits t) x))"
| "castValue ZExt (IntVal b x) t = Some (IntVal (bits t) x)"
| "castValue SExt (IntVal b x) t = Some (IntVal (bits t) (take_bit (bits t) (signed b x)))"
| "castValue FPToUI (FloatVal v) t =
     (if 0 \<le> trunc v \<and> trunc v < 2 ^ bits t then Some (IntVal (bits t) (trunc v)) else None)"
| "castValue FPToSI (FloatVal v) t =
     (if - (2 ^ (bits t - 1)) \<le> trunc v \<and> trunc v < 2 ^ (bits t - 1)
      then Some (IntVal (bits t) (take_bit (bits t) (trunc v))) else None)"
| "castValue UIToFP (IntVal b x) t = Some (FloatVal (of_int x))"
| "castValue SIToFP (IntVal b x) t = Some (FloatVal (of_int (signed b x)))"
| "castValue BitCast (IntVal b x) t = (if isIntegerTy t then Some (IntVal b x) else None)"
| "castValue BitCast (FloatVal v) t = (if t = Double then Some (FloatVal v) else None)"
| "castValue opc x t = None"

fun eval :: "(nat \<Rightarrow> RtVal) \<Rightarrow> Value \<Rightarrow> RtVal option" where
  "eval env (ConstantFP v) = Some (FloatVal v)"
| "eval env (ConstantInt t n) = Some (IntVal (bits t) (take_bit (bits t) n))"
| "eval env (Argument i t) = Some (env i)"
| "eval env (BinaryOperator opc a b) =
     do { x \<leftarrow> eval env a; y \<leftarrow> eval env b; evalBinary opc x y }"
| "eval env (FCmpInst p a b) =
     do { x \<leftarrow> eval env a; y \<leftarrow> eval env b;
          case (x, y) of
            (FloatVal u, FloatVal v) \<Rightarrow> Some (IntVal 1 (if evalFCmp p u v then 1 else 0))
          | _ \<Rightarrow> None }"
| "eval env (ICmpInst p a b) =
     do { x \<leftarrow> eval env a; y \<leftarrow> eval env b;
          case (x, y) of
            (IntVal c u, IntVal d v) \<Rightarrow>
              if c = d then Some (IntVal 1 (if evalICmp p (signed c u) (signed d v) then 1 else 0))
              else None
          | _ \<Rightarrow> None }"
| "eval env (CastInst opc a t) =
     do { x \<leftarrow> eval env a;
          if castIsValid opc (typeOf a) t then castValue opc x t else None }"

section \<open>Type-directed optimization pass (optimization/type_directed_pass_impl.cpp)\<close>

text \<open>
  The counters of the pass. The header declares \<open>division_to_shifts\<close>; the pass and the
  manager write \<open>divisions_to_shifts\<close> for the same counter.
\<close>

record TypeOptimizationStats =
  specializations_applied :: int
  type_casts_eliminated :: int
  numeric_optimizations :: int
  integer_arithmetic_optimized :: int
  division_to_shifts :: int
  multiplication_to_shifts :: int

definition resetStats :: TypeOptimizationStats where
  "resetStats =
     \<lparr>specializations_applied = 0, type_casts_eliminated = 0, numeric_optimizations = 0,
      integer_arithmetic_optimized = 0, division_to_shifts = 0, multiplication_to_shifts = 0\<rparr>"

text \<open>
  \<open>isIntegerConstant\<close>: a floating-point constant equal to its floor and between
  \<open>INT64_MIN\<close> and \<open>INT64_MAX\<close> as doubles, the latter being \<open>2 ^ 63\<close>. The value is
  an \<open>int64_t\<close>, here an \<open>int\<close>; at \<open>2 ^ 63\<close> itself the conversion is undefined, and the
  model returns what x86-64 returns, \<open>INT64_MIN\<close>.
\<close>

definition INT64_MIN :: int where
  "INT64_MIN = - (2 ^ 63)"

definition INT64_MAX :: int where
  "INT64_MAX = 2 ^ 63 - 1"

fun isIntegerConstant :: "Value \<Rightarrow> int option" where
  "isIntegerConstant (ConstantFP fpVal) =
     (if fpVal = of_int \<lfloor>fpVal\<rfloor> \<and> fpVal \<ge> of_int INT64_MIN \<and> fpVal \<le> 2 ^ 63
      then Some (if \<lfloor>fpVal\<rfloor> \<le> INT64_MAX then \<lfloor>fpVal\<rfloor> else INT64_MIN)
      else None)"
| "isIntegerConstant v = None"

definition isPowerOfTwo :: "int \<Rightarrow> bool" where
  "isPowerOfTwo v = (v > 0 \<and> v AND (v - 1) = 0)"

text \<open>
  \<open>getShiftAmount\<close>: the loop \<open>while (temp > 1) { temp >>= 1; shift_amount++; }\<close>.
\<close>

function getShiftAmount_loop :: "int \<Rightarrow> int \<Rightarrow> int" where
  "getShiftAmount_loop temp shift_amount =
     (if temp > 1 then getShiftAmount_loop (temp div 2) (shift_amount + 1) else shift_amount)"
  by pat_completeness auto
termination
  by (relation "measure (\<lambda>(temp, shift_amount). nat temp)") auto

declare getShiftAmount_loop.simps [simp del]

definition getShiftAmount :: "int \<Rightarrow> int" where
  "getShiftAmount power_of_two = getShiftAmount_loop power_of_two 0"

text \<open>
  The body of the loop of \<open>optimizeNumericOperations\<close> for one instruction: the value
  that replaces the instruction, with the counters after the rewrite, or \<open>None\<close> when
  the instruction is left alone. The test for a power of two and the shift loop are
  written out in the pass with the same text as \<open>isPowerOfTwo\<close> and \<open>getShiftAmount\<close>.
\<close>

fun mapPredicate :: "FPredicate \<Rightarrow> IPredicate option" where
  "mapPredicate FCMP_OEQ = Some ICMP_EQ"
| "mapPredicate FCMP_ONE = Some ICMP_NE"
| "mapPredicate FCMP_OLT = Some ICMP_SLT"
| "mapPredicate FCMP_OLE = Some ICMP_SLE"
| "mapPredicate FCMP_OGT = Some ICMP_SGT"
| "mapPredicate FCMP_OGE = Some ICMP_SGE"
| "mapPredicate p = None"

fun optimizeNumericOperation ::
  "Value \<Rightarrow> TypeOptimizationStats \<Rightarrow> (Value \<times> TypeOptimizationStats) option" where
  "optimizeNumericOperation (BinaryOperator opc left right) stats =
     (case (isIntegerConstant left, isIntegerConstant right) of
        (Some leftInt, Some rightInt) \<Rightarrow>
          (case opc of
             FAdd \<Rightarrow>
               Some (CastInst SIToFP
                       (BinaryOperator Add (ConstantInt I64 leftInt) (ConstantInt I64 rightInt))
                       Double,
                     stats\<lparr>numeric_optimizations := numeric_optimizations stats + 1,
                           integer_arithmetic_optimized := integer_arithmetic_optimized stats + 1\<rparr>)
           | FMul \<Rightarrow>
               if isPowerOfTwo rightInt then
                 Some (CastInst SIToFP
                         (BinaryOperator Shl (ConstantInt I64 leftInt)
                            (ConstantInt I32 (getShiftAmount rightInt)))
                         Double,
                       stats\<lparr>numeric_optimizations := numeric_optimizations stats + 1,
                             multiplication_to_shifts := multiplication_to_shifts stats + 1\<rparr>)
               else None
           | FDiv \<Rightarrow>
               if isPowerOfTwo rightInt then
                 Some (CastInst SIToFP
                         (BinaryOperator AShr (ConstantInt I64 leftInt)
                            (ConstantInt I32 (getShiftAmount rightInt)))
                         Double,
                       stats\<lparr>numeric_optimizations := numeric_optimizations stats + 1,
                             division_to_shifts := division_to_shifts stats + 1\<rparr>)
               else None
           | _ \<Rightarrow> None)
      | _ \<Rightarrow> None)"
| "optimizeNumericOperation (FCmpInst p left right) stats =
     (case (isIntegerConstant left, isIntegerConstant right) of
        (Some leftInt, Some rightInt) \<Rightarrow>
          (case mapPredicate p of
             None \<Rightarrow> None
           | Some intPred \<Rightarrow>
               Some (CastInst UIToFP
                       (ICmpInst intPred (ConstantInt I64 leftInt) (ConstantInt I64 rightInt))
                       Double,
                     stats\<lparr>numeric_optimizations := numeric_optimizations stats + 1,
                           integer_arithmetic_optimized := integer_arithmetic_optimized stats + 1\<rparr>))
      | _ \<Rightarrow> None)"
| "optimizeNumericOperation v stats = None"

text \<open>
  The body of the loop of \<open>eliminateUnnecessaryTypeCasts\<close> for one instruction, in the
  same way.
\<close>

fun eliminateUnnecessaryTypeCast ::
  "Value \<Rightarrow> TypeOptimizationStats \<Rightarrow> (Value \<times> TypeOptimizationStats) option" where
  "eliminateUnnecessaryTypeCast (CastInst opc operand destTy) stats =
     (if typeOf operand = destTy
      then Some (operand, stats\<lparr>type_casts_eliminated := type_casts_eliminated stats + 1\<rparr>)
      else (case operand of
              CastInst innerOpc innerOperand innerDestTy \<Rightarrow>
                if typeOf innerOperand = destTy
                then Some (innerOperand,
                           stats\<lparr>type_casts_eliminated := type_casts_eliminated stats + 1\<rparr>)
                else (let opcode = getCastOpcode (typeOf innerOperand) destTy
                      in if castIsValid opcode (typeOf innerOperand) destTy
                         then Some (CastInst opcode innerOperand destTy,
                                    stats\<lparr>type_casts_eliminated := type_casts_eliminated stats + 1\<rparr>)
                         else None)
            | _ \<Rightarrow> None))"
| "eliminateUnnecessaryTypeCast v stats = None"

section \<open>Function inlining pass (optimization/optimization_manager.cpp)\<close>

text \<open>
  The inlining pass looks at the kind of an instruction and, for a call, at the called
  function. An instruction has an identity (the pointer in the source, a number here); a
  function is named, and \<open>getCalledFunction\<close> is the name of the callee, or null for an
  indirect call.
\<close>

datatype InstKind = CallInst "string option" | BranchInst | LoadInst | StoreInst | OtherInst

record Instruction =
  inst_id :: nat
  inst_kind :: InstKind

record Function =
  func_name :: string
  isDeclaration :: bool
  blocks :: "Instruction list list"

type_synonym Module = "Function list"

definition getFunction :: "Module \<Rightarrow> string \<Rightarrow> Function option" where
  "getFunction M n = find (\<lambda>f. func_name f = n) M"

definition INLINE_THRESHOLD :: int where
  "INLINE_THRESHOLD = 20"

fun weight :: "InstKind \<Rightarrow> int" where
  "weight (CallInst c) = 5"
| "weight BranchInst = 1"
| "weight LoadInst = 2"
| "weight StoreInst = 2"
| "weight OtherInst = 0"

definition calculateInstructionCount :: "Function \<Rightarrow> int" where
  "calculateInstructionCount func =
     fold (\<lambda>I count. count + 1 + weight (inst_kind I)) (concat (blocks func)) 0"

definition shouldInlineFunction :: "Function option \<Rightarrow> bool" where
  "shouldInlineFunction func =
     (case func of
        None \<Rightarrow> False
      | Some f \<Rightarrow>
          if isDeclaration f then False
          else if func_name f = ''main'' then False
          else if length (blocks f) > 3 then False
          else calculateInstructionCount f \<le> INLINE_THRESHOLD)"

text \<open>
  A collected call: the instruction, the function it sits in and the function it calls.
\<close>

record CallSite =
  call_id :: nat
  caller :: string
  callee :: string

definition callsToInline :: "Module \<Rightarrow> CallSite list" where
  "callsToInline M =
     concat (map (\<lambda>f.
       if isDeclaration f then []
       else concat (map (\<lambda>I.
              case inst_kind I of
                CallInst (Some c) \<Rightarrow>
                  if shouldInlineFunction (getFunction M c)
                  then [\<lparr>call_id = inst_id I, caller = func_name f, callee = c\<rparr>]
                  else []
              | _ \<Rightarrow> []) (concat (blocks f)))) M)"

text \<open>The scan of the callee's body for a call of the callee itself.\<close>

definition isRecursive :: "Function \<Rightarrow> bool" where
  "isRecursive f = list_ex (\<lambda>I. inst_kind I = CallInst (Some (func_name f))) (concat (blocks f))"

text \<open>
  The second loop of \<open>inlineSmallFunctions\<close>. LLVM's \<open>InlineFunction\<close> is a parameter:
  it returns the module with the call inlined, or \<open>None\<close> when it fails and leaves the
  module as it is. The last component of the state is not in the source: it records
  every call that was inlined, with the module as it was when the call was taken up.
  \<open>None\<close> is a callee that is no longer in the module.
\<close>

fun inlineLoop ::
  "(Module \<Rightarrow> CallSite \<Rightarrow> Module option) \<Rightarrow> CallSite list \<Rightarrow>
   bool \<times> Module \<times> (CallSite \<times> Module) list \<Rightarrow>
   (bool \<times> Module \<times> (CallSite \<times> Module) list) option" where
  "inlineLoop InlineFunction [] st = Some st"
| "inlineLoop InlineFunction (call # calls) (changed, M, inlined) =
     (if caller call = callee call then inlineLoop InlineFunction calls (changed, M, inlined)
      else (case getFunction M (callee call) of
              None \<Rightarrow> None
            | Some f \<Rightarrow>
                if isRecursive f then inlineLoop InlineFunction calls (changed, M, inlined)
                else (case InlineFunction M call of
                        Some M' \<Rightarrow>
                          inlineLoop InlineFunction calls (True, M', inlined @ [(call, M)])
                      | None \<Rightarrow> inlineLoop InlineFunction calls (changed, M, inlined))))"

definition inlineSmallFunctions ::
  "(Module \<Rightarrow> CallSite \<Rightarrow> Module option) \<Rightarrow> Module \<Rightarrow>
   (bool \<times> Module \<times> (CallSite \<times> Module) list) option" where
  "inlineSmallFunctions InlineFunction M =
     inlineLoop InlineFunction (callsToInline M) (False, M, [])"

text \<open>
  A stand-in for LLVM's \<open>InlineFunction\<close>: the instructions of the callee, copied under
  fresh identities, take the place of the call in the caller. It fails on a callee
  without a body and on a call that is not in the caller.
\<close>

definition freshId :: "Module \<Rightarrow> nat" where
  "freshId M = Suc (fold max (map inst_id (concat (concat (map blocks M)))) 0)"

definition copyBody :: "nat \<Rightarrow> Function \<Rightarrow> Instruction list" where
  "copyBody base f =
     map (\<lambda>(i, I). I\<lparr>inst_id := base + i\<rparr>)
       (zip [0 ..< length (concat (blocks f))] (concat (blocks f)))"

definition spliceCall :: "nat \<Rightarrow> Instruction list \<Rightarrow> Instruction list \<Rightarrow> Instruction list" where
  "spliceCall c copied block =
     concat (map (\<lambda>I. if inst_id I = c then copied else [I]) block)"

definition InlineFunction_model :: "Module \<Rightarrow> CallSite \<Rightarrow> Module option" where
  "InlineFunction_model M call =
     (case (getFunction M (caller call), getFunction M (callee call)) of
        (Some f, Some g) \<Rightarrow>
          if isDeclaration g \<or> \<not> list_ex (\<lambda>I. inst_id I = call_id call) (concat (blocks f))
          then None
          else Some (map (\<lambda>h. if func_name h = caller call
                               then h\<lparr>blocks := map (spliceCall (call_id call)
                                                    (copyBody (freshId M) g)) (blocks h)\<rparr>
                               else h) M)
      | _ \<Rightarrow> None)"

text \<open>Two functions that call each other: \<open>f\<close> calls \<open>g\<close> and \<open>g\<close> calls \<open>f\<close>.\<close>

definition mutual_module :: Module where
  "mutual_module =
     [\<lparr>func_name = ''f'', isDeclaration = False,
       blocks = [[\<lparr>inst_id = 0, inst_kind = CallInst (Some ''g'')\<rparr>,
                  \<lparr>inst_id = 1, inst_kind = OtherInst\<rparr>]]\<rparr>,
      \<lparr>func_name = ''g'', isDeclaration = False,
       blocks = [[\<lparr>inst_id = 2, inst_kind = CallInst (Some ''f'')\<rparr>,
                  \<lparr>inst_id = 3, inst_kind = OtherInst\<rparr>]]\<rparr>]"

text \<open>A function that calls itself, and a caller of it.\<close>

definition direct_module :: Module where
  "direct_module =
     [\<lparr>func_name = ''f'', isDeclaration = False,
       blocks = [[\<lparr>inst_id = 0, inst_kind = CallInst (Some ''g'')\<rparr>,
                  \<lparr>inst_id = 1, inst_kind = OtherInst\<rparr>]]\<rparr>,
      \<lparr>func_name = ''g'', isDeclaration = False,
       blocks = [[\<lparr>inst_id = 2, inst_kind = CallInst (Some ''g'')\<rparr>,
                  \<lparr>inst_id = 3, inst_kind = OtherInst\<rparr>]]\<rparr>]"

section \<open>Optimization manager (optimization/optimization_manager.cpp)\<close>

datatype OptimizationLevel = O0 | O1 | O2 | O3

text \<open>
  The counters of the manager. Two of its fields bear names that \<open>TypeOptimizationStats\<close>
  has too; they are prefixed here.
\<close>

record OptimizationStats =
  instructions_eliminated :: int
  constants_folded :: int
  functions_inlined :: int
  loops_optimized :: int
  optimization_time_ms :: rat
  type_specializations :: int
  stats_type_casts_eliminated :: int
  numeric_operations_optimized :: int
  divisions_to_shifts :: int
  multiplications_to_shifts :: int


text \<open>
  The manager: its level, its counters, the type-directed pass it owns (null until the
  level is \<open>O3\<close>) and its function pass manager. A type-directed pass is given by its
  counters, which are its only state. The pass managers are LLVM's, and a pass manager
  keeps every pass it is given by value: \<open>function_pm->addPass(*type_directed_pass)\<close>
  puts a copy of the manager's pass into the pipeline. The model keeps of \<open>function_pm\<close>
  the one state that matters here, the counters of that copy; it is \<open>None\<close> while the
  pipeline holds no type-directed pass.

  \<open>setupPassPipeline\<close> makes two new pass managers and, at \<open>O3\<close>, a new type-directed
  pass, which it adds to the function pipeline. Below \<open>O3\<close> it leaves
  \<open>type_directed_pass\<close> as it is.
\<close>

record QuillOptimizationManager =
  opt_level :: OptimizationLevel
  stats :: OptimizationStats
  function_pm :: "TypeOptimizationStats option"
  type_directed_pass :: "TypeOptimizationStats option"




section \<open>Properties of the type model\<close>

lemma getVariantType_distinct:
  "distinct (map fst vs) \<Longrightarrow> (t, d) \<in> set vs \<Longrightarrow> getVariantType vs t = Some d"
  by (induction vs) (auto simp: rev_image_eqI)

lemma getMethod_distinct:
  "distinct (map fst ms) \<Longrightarrow> (m, s) \<in> set ms \<Longrightarrow> getMethod ms m = Some s"
  by (induction ms) (auto simp: rev_image_eqI)

lemma equals_refl: "distinctTags t \<Longrightarrow> equals t (Some t)"
proof (induction t)
  case (FunctionType ps r)
  then show ?case by (simp add: list_all2_same list_all_iff)
next
  case (TupleType es)
  then show ?case by (simp add: list_all2_same list_all_iff)
next
  case (UnionType ts)
  then show ?case by (auto simp: list_all_iff list_ex_iff)
next
  case (DiscriminatedUnionType vs)
  have "case getVariantType vs (fst v) of None \<Rightarrow> False | Some d \<Rightarrow> equals (snd v) (Some d)"
    if "v \<in> set vs" for v
  proof -
    obtain t d where v: "v = (t, d)" by (cases v)
    from DiscriminatedUnionType.prems that v
    have "getVariantType vs t = Some d" "distinctTags d"
      by (auto simp: getVariantType_distinct list_all_iff)
    moreover have "equals d (Some d)"
      using DiscriminatedUnionType.IH [of v d] that v \<open>distinctTags d\<close> by simp
    ultimately show ?thesis using v by simp
  qed
  then show ?case by (simp add: list_all_iff)
next
  case (InterfaceType n ms)
  have "case getMethod ms (fst m) of None \<Rightarrow> False | Some s \<Rightarrow> equals (snd m) (Some s)"
    if "m \<in> set ms" for m
  proof -
    obtain k s where m: "m = (k, s)" by (cases m)
    from InterfaceType.prems that m
    have "getMethod ms k = Some s" "distinctTags s"
      by (auto simp: getMethod_distinct list_all_iff)
    moreover have "equals s (Some s)"
      using InterfaceType.IH [of m s] that m \<open>distinctTags s\<close> by simp
    ultimately show ?thesis using m by simp
  qed
  then show ?case by (simp add: list_all_iff)
qed simp_all


subsection \<open>Reflexivity of equals\<close>

text \<open>
  Claim C2, as the code has it. \<open>UnknownType\<close> and \<open>ErrorType\<close> inherit the base
  \<open>equals\<close>, which compares \<open>kind\<close> and \<open>name\<close> only: an Unknown type equals every
  Unknown type, and an Error type equals every Error type whatever the two messages are.
  A discriminated union that lists one tag twice with different data types is not equal
  to itself, since the lookup by tag returns the first entry.
\<close>

theorem equals_unknown_error_counterexample:
  "equals UnknownType (Some UnknownType) \<and>
   equals (ErrorType ''a'') (Some (ErrorType ''b'')) \<and>
   \<not> equals (DiscriminatedUnionType [(''a'', IntType), (''a'', FloatType)])
         (Some (DiscriminatedUnionType [(''a'', IntType), (''a'', FloatType)]))"
  by simp

text \<open>
  Claim C2, amended: for every type whose discriminated unions have pairwise distinct tags
  and whose interfaces have pairwise distinct method names, \<open>equals(T, T)\<close> holds. Unknown
  and Error are no exception: every Unknown type equals every Unknown type, and every Error
  type equals every Error type, also one with another message.
\<close>

theorem equals_reflexive:
  "(distinctTags t \<longrightarrow> equals t (Some t)) \<and>
   equals UnknownType (Some UnknownType) \<and>
   equals (ErrorType m1) (Some (ErrorType m2))"
  by (simp add: equals_refl)

theorem equals_reflexive_witness:
  "distinctTags (DiscriminatedUnionType [(''ok'', IntType), (''err'', ErrorType ''e'')]) \<and>
   equals (DiscriminatedUnionType [(''ok'', IntType), (''err'', ErrorType ''e'')])
     (Some (DiscriminatedUnionType [(''ok'', IntType), (''err'', ErrorType ''e'')])) \<and>
   equals (ErrorType ''x'') (Some (ErrorType ''y''))"
  using equals_reflexive [of "DiscriminatedUnionType [(''ok'', IntType), (''err'', ErrorType ''e'')]"
      "''x''" "''y''"]
  by simp

subsection \<open>Null operands\<close>

text \<open>
  Claim C10, as the code has it: \<open>UnknownType::isAssignableFrom\<close> returns true without
  looking at its argument, so it returns true on a null pointer.
\<close>

theorem isAssignableFrom_null_counterexample: "isAssignableFrom UnknownType None"
  by simp

text \<open>
  Claim C10, amended: for every type, \<open>equals(null)\<close> is false; \<open>isAssignableFrom(null)\<close>
  is false for every type but Unknown, which accepts everything, null included;
  \<open>promoteNumericTypes\<close> and \<open>unifyTypes\<close> return an Error type when either argument is
  null.
\<close>

theorem null_operands_total:
  "\<not> equals t None \<and>
   (isAssignableFrom t None \<longleftrightarrow> t = UnknownType) \<and>
   isError (promoteNumericTypes None p) \<and> isError (promoteNumericTypes p None) \<and>
   isError (unifyTypes None p) \<and> isError (unifyTypes p None)"
proof -
  have "isAssignableFrom t None \<longleftrightarrow> t = UnknownType"
    by (cases t) simp_all
  moreover have "isError (promoteNumericTypes p None)" "isError (unifyTypes p None)"
    by (cases p; simp add: promoteNumericTypes_def unifyTypes_def isError_def)+
  ultimately show ?thesis
    by (simp add: promoteNumericTypes_def unifyTypes_def isError_def)
qed

theorem null_operands_total_witness:
  "\<not> equals (UnionType [UnknownType, IntType]) None \<and>
   \<not> isAssignableFrom (UnionType [UnknownType, IntType]) None \<and>
   isError (promoteNumericTypes None (Some FloatType)) \<and>
   isError (unifyTypes (Some FloatType) None)"
  using null_operands_total [of "UnionType [UnknownType, IntType]" "Some FloatType"]
  by simp


section \<open>Properties of the type checker\<close>

subsection \<open>Number literals\<close>

lemma trunc_eq_iff: "v = of_int (trunc v) \<longleftrightarrow> v \<in> \<int>"
  by (auto simp: trunc_def Ints_def)

lemma trunc_of_int: "trunc (of_int r) = r"
  by (simp add: trunc_def)

text \<open>
  Where the truncated value fits an \<open>int\<close>, a literal is an Int exactly when its value
  has no fractional part.
\<close>

lemma inferNumberType_in_range:
  "INT_MIN \<le> trunc v \<Longrightarrow> trunc v \<le> INT_MAX \<Longrightarrow>
   inferNumberType v = result (Some (if v \<in> \<int> then IntType else FloatType))"
  by (simp add: inferNumberType_def static_cast_int_def trunc_eq_iff)

text \<open>
  Where it does not fit, no \<open>int\<close> at all compares equal to the value: whatever the
  undefined conversion returns, the literal is a Float.
\<close>

lemma inferNumberType_out_of_range:
  "\<not> (INT_MIN \<le> trunc v \<and> trunc v \<le> INT_MAX) \<Longrightarrow> INT_MIN \<le> r \<Longrightarrow> r \<le> INT_MAX \<Longrightarrow>
   v \<noteq> of_int r"
  using trunc_of_int [of r] by auto

text \<open>
  Claim C9 at the literal \<open>3000000000\<close>: the value has no fractional part and the
  checker infers Float, since \<open>static_cast<int>\<close> cannot hold it.
\<close>

theorem inferNumberType_large_literal:
  "(3000000000 :: rat) \<in> \<int> \<and> inferNumberType 3000000000 = result (Some FloatType)"
  by (simp add: inferNumberType_def static_cast_int_def trunc_def INT_MIN_def INT_MAX_def)

subsection \<open>Calls\<close>

lemma lookupFunction_None_iff:
  "lookupFunction scopes n arg_types = None \<longleftrightarrow>
     (case lookup scopes n of
        None \<Rightarrow> True
      | Some (FunctionType ps r) \<Rightarrow> length ps \<noteq> length arg_types \<or> \<not> list_all2 isAssignableFrom ps arg_types
      | Some _ \<Rightarrow> True)"
  by (auto simp: lookupFunction_def split: option.splits ty.splits)

text \<open>
  Claim C3, as the code has it: \<open>print\<close> is bound to a function of one parameter; a call
  with no argument matches no signature and is reported as an undefined function.
\<close>

theorem no_matching_overload_counterexample:
  "lookup (type_env newTypeChecker) ''print'' = Some (FunctionType [UnknownType] VoidType) \<and>
   inferExpressionType newTypeChecker (CallExprAST ''print'' []) =
     Some (errorResult ''Undefined function: print'')"
  by code_simp

text \<open>
  Claim C3, amended: whenever \<open>lookupFunction\<close> fails, the call is reported as
  \<open>Undefined function: <name>\<close>. That is so when the name has no binding and just as
  well when it is bound to a function whose arity differs or one of whose parameters does
  not accept its argument, or to something that is not a function; the checker has no
  other report for a failed lookup.
\<close>

theorem call_failure_report:
  assumes "inferArgs tc as [] = Some (Inr arg_types)"
    and "lookup (type_env tc) fn = None \<or>
         (\<exists>ps r. lookup (type_env tc) fn = Some (FunctionType ps r) \<and>
                 (length ps \<noteq> length arg_types \<or> \<not> list_all2 isAssignableFrom ps arg_types)) \<or>
         (\<exists>t. lookup (type_env tc) fn = Some t \<and> \<not> isFunction t)"
  shows "inferExpressionType tc (CallExprAST fn as) =
         Some (errorResult (''Undefined function: '' @ fn))"
proof -
  from assms(2) have "lookupFunction (type_env tc) fn arg_types = None"
    by (auto simp: lookupFunction_None_iff isFunction_def split: ty.splits)
  with assms(1) show ?thesis
    by (simp add: formatUndefinedFunction_def)
qed

theorem call_failure_report_witness:
  "inferExpressionType newTypeChecker
     (CallExprAST ''print'' [NumberExprAST 1, StringExprAST ''a'']) =
   Some (errorResult ''Undefined function: print'')"
proof -
  have a: "inferArgs newTypeChecker [NumberExprAST 1, StringExprAST ''a''] [] =
           Some (Inr [Some IntType, Some StringType])"
    by code_simp
  have l: "lookup (type_env newTypeChecker) ''print'' = Some (FunctionType [UnknownType] VoidType)"
    by code_simp
  have "lookup (type_env newTypeChecker) ''print'' = None \<or>
        (\<exists>ps r. lookup (type_env newTypeChecker) ''print'' = Some (FunctionType ps r) \<and>
                (length ps \<noteq> length [Some IntType, Some StringType] \<or>
                 \<not> list_all2 isAssignableFrom ps [Some IntType, Some StringType])) \<or>
        (\<exists>t. lookup (type_env newTypeChecker) ''print'' = Some t \<and> \<not> isFunction t)"
    using l by simp
  from call_failure_report [OF a this] show ?thesis by simp
qed

subsection \<open>Branches\<close>

text \<open>
  Claim C1 on \<open>def f(c): if c: x = 1 else: x = 2.5\<close>. \<open>checkIf\<close> clones the context
  before each branch and then checks the branch against the checker's own context, not
  against the clone: the \<open>else\<close> branch finds \<open>x : int\<close>, left there by the \<open>then\<close>
  branch, and rejects the assignment of a Float. The clones are merged and installed
  afterwards, and \<open>x\<close> is recorded as Int.
\<close>

theorem checkIf_merge_example:
  "map_option (\<lambda>(r, tc). (errors r, getVariableType (current_context tc) ''x''))
     (checkFunction newTypeChecker if_merge_function) =
   Some ([''Type error in assignment to variable '' @ [CHR 0x27] @ ''x'' @ [CHR 0x27] @
            '': expected int, got float''],
         Some IntType)"
  by code_simp

section \<open>Properties of the constraint solver\<close>

lemma bindIfUnbound_cases:
  "bindIfUnbound b ch n t = (b', ch') \<Longrightarrow>
     (b' = b \<and> ch' = ch) \<or> (n \<notin> dom b \<and> b' = b(n \<mapsto> t) \<and> ch')"
  by (auto simp: bindIfUnbound_def getBinding_def bindTypeVariable_def split: if_splits)

lemma solve_constraint_cases:
  assumes "solve_constraint c b ch = Some (b', ch')"
  shows "(b' = b \<and> ch' = ch) \<or> (\<exists>n t. n \<notin> dom b \<and> n \<in> constraintNames c \<and> b' = b(n \<mapsto> t) \<and> ch')"
proof (cases c)
  case (Constraint k l r)
  have bind: "(b' = b \<and> ch' = ch) \<or> (\<exists>n t. n \<notin> dom b \<and> n \<in> constraintNames c \<and> b' = b(n \<mapsto> t) \<and> ch')"
    if "bindIfUnbound b ch n t = (b', ch')" "n \<in> constraintNames c" for n t
    using bindIfUnbound_cases [OF that(1)] that(2) by blast
  show ?thesis
  proof (cases k)
    case EQUALS
    with assms Constraint obtain lt rt where lr: "l = Some lt" "r = Some rt"
      by (auto simp: Option.bind_eq_Some_conv)
    consider (left) n where "parameter_name lt = Some n" "bindIfUnbound b ch n (clone rt) = (b', ch')"
      | (right) n where "parameter_name rt = Some n" "bindIfUnbound b ch n (clone lt) = (b', ch')"
      | (same) "b' = b" "ch' = ch"
      using assms Constraint EQUALS lr
      by (auto simp: Option.bind_eq_Some_conv split: if_splits)
    then show ?thesis
    proof cases
      case left
      then show ?thesis using bind [of n "clone rt"] Constraint lr by (simp add: genericName_def)
    next
      case right
      then show ?thesis using bind [of n "clone lt"] Constraint lr by (simp add: genericName_def)
    next
      case same
      then show ?thesis by simp
    qed
  next
    case NUMERIC
    with assms Constraint obtain lt where lr: "l = Some lt"
      by (auto simp: Option.bind_eq_Some_conv)
    consider (left) n where "parameter_name lt = Some n" "bindIfUnbound b ch n IntType = (b', ch')"
      | (same) "b' = b" "ch' = ch"
      using assms Constraint NUMERIC lr
      by (auto simp: Option.bind_eq_Some_conv split: if_splits)
    then show ?thesis
    proof cases
      case left
      then show ?thesis using bind [of n IntType] Constraint lr by (simp add: genericName_def)
    next
      case same
      then show ?thesis by simp
    qed
  next
    case COMPARABLE
    with assms Constraint obtain lt where lr: "l = Some lt"
      by (auto simp: Option.bind_eq_Some_conv)
    consider (left) n where "parameter_name lt = Some n" "bindIfUnbound b ch n IntType = (b', ch')"
      | (same) "b' = b" "ch' = ch"
      using assms Constraint COMPARABLE lr
      by (auto simp: Option.bind_eq_Some_conv split: if_splits)
    then show ?thesis
    proof cases
      case left
      then show ?thesis using bind [of n IntType] Constraint lr by (simp add: genericName_def)
    next
      case same
      then show ?thesis by simp
    qed
  qed (use assms Constraint in auto)
qed

lemma solve_pass_props:
  "solve_pass cs b ch = Some (b', ch') \<Longrightarrow>
     b \<subseteq>\<^sub>m b' \<and> dom b' \<subseteq> dom b \<union> genericNames cs \<and>
     (if ch' then ch \<or> dom b \<subset> dom b' else b' = b \<and> \<not> ch)"
proof (induction cs arbitrary: b ch)
  case Nil
  then show ?case by simp
next
  case (Cons c cs)
  from Cons.prems obtain b1 ch1 where
    c: "solve_constraint c b ch = Some (b1, ch1)" and rest: "solve_pass cs b1 ch1 = Some (b', ch')"
    by (auto simp: Option.bind_eq_Some_conv)
  from Cons.IH [OF rest] have
    ih: "b1 \<subseteq>\<^sub>m b'" "dom b' \<subseteq> dom b1 \<union> genericNames cs"
        "if ch' then ch1 \<or> dom b1 \<subset> dom b' else b' = b1 \<and> \<not> ch1"
    by simp_all
  have names: "genericNames (c # cs) = constraintNames c \<union> genericNames cs"
    by (simp add: genericNames_def)
  from solve_constraint_cases [OF c] show ?case
  proof
    assume eq: "b1 = b \<and> ch1 = ch"
    have "dom b' \<subseteq> dom b \<union> genericNames (c # cs)"
      using ih(2) eq names by auto
    then show ?thesis using ih(1) ih(3) eq by (cases ch') simp_all
  next
    assume "\<exists>n t. n \<notin> dom b \<and> n \<in> constraintNames c \<and> b1 = b(n \<mapsto> t) \<and> ch1"
    then obtain n t where n: "n \<notin> dom b" "n \<in> constraintNames c" "b1 = b(n \<mapsto> t)" "ch1"
      by blast
    have sub: "b \<subseteq>\<^sub>m b1" using n by (auto simp: map_le_def)
    have "b \<subseteq>\<^sub>m b'" using sub ih(1) by (rule map_le_trans)
    moreover have "dom b' \<subseteq> dom b \<union> genericNames (c # cs)"
      using ih(2) n names by auto
    moreover have "dom b \<subset> dom b'"
    proof -
      have "dom b1 \<subseteq> dom b'" using ih(1) by (rule map_le_implies_dom_le)
      with n show ?thesis by auto
    qed
    moreover have "ch'" using ih(3) n(4) by (auto split: if_splits)
    ultimately show ?thesis by simp
  qed
qed

lemma finite_genericNames: "finite (genericNames cs)"
proof -
  have "finite (constraintNames c)" for c
    by (cases c) (simp add: genericName_def)
  then show ?thesis by (simp add: genericNames_def)
qed

lemma parameter_name_generic: "kind t = GENERIC \<Longrightarrow> \<exists>n. parameter_name t = Some n"
  by (cases t) simp_all

lemma solve_constraint_nonNull:
  assumes "nonNull c"
  shows "\<exists>r. solve_constraint c b ch = Some r"
proof (cases c)
  case (Constraint k l r)
  show ?thesis
  proof (cases k)
    case EQUALS
    with assms Constraint obtain lt rt where "l = Some lt" "r = Some rt" by auto
    with Constraint EQUALS show ?thesis
      using parameter_name_generic [of lt] parameter_name_generic [of rt] by auto
  next
    case NUMERIC
    with assms Constraint obtain lt where "l = Some lt" by auto
    with Constraint NUMERIC show ?thesis
      using parameter_name_generic [of lt] by auto
  next
    case COMPARABLE
    with assms Constraint obtain lt where "l = Some lt" by auto
    with Constraint COMPARABLE show ?thesis
      using parameter_name_generic [of lt] by auto
  qed (use Constraint in simp_all)
qed

lemma solve_pass_nonNull:
  "list_all nonNull cs \<Longrightarrow> \<exists>r. solve_pass cs b ch = Some r"
proof (induction cs arbitrary: b ch)
  case Nil
  then show ?case by simp
next
  case (Cons c cs)
  then obtain b1 ch1 where "solve_constraint c b ch = Some (b1, ch1)"
    using solve_constraint_nonNull [of c b ch] by auto
  moreover from Cons obtain r where "solve_pass cs b1 ch1 = Some r" by fastforce
  ultimately show ?case by simp
qed

lemma solve_total:
  "\<exists>out. solve cs b = Some out \<and>
     (list_all nonNull cs \<longrightarrow> out \<noteq> NullDereference) \<and>
     (\<forall>r b'. out = Returned r b' \<longrightarrow>
        r \<and> b \<subseteq>\<^sub>m b' \<and> dom b' \<subseteq> dom b \<union> genericNames cs \<and>
        solve_pass cs b' False = Some (b', False))"
proof (induction "card (genericNames cs - dom b)" arbitrary: b rule: less_induct)
  case less
  show ?case
  proof (cases "solve_pass cs b False")
    case None
    then have "\<not> list_all nonNull cs"
      using solve_pass_nonNull [of cs b False] by auto
    with None show ?thesis by (subst solve.simps) simp
  next
    case (Some p)
    obtain b1 ch where p: "p = (b1, ch)" by (cases p)
    note props = solve_pass_props [of cs b False b1 ch]
    show ?thesis
    proof (cases ch)
      case False
      with Some p props have "b1 = b" by simp
      with Some p False show ?thesis by (subst solve.simps) simp
    next
      case True
      with Some p props have grow: "dom b \<subset> dom b1" and bound: "dom b1 \<subseteq> dom b \<union> genericNames cs"
        and le: "b \<subseteq>\<^sub>m b1"
        by simp_all
      have "genericNames cs - dom b1 \<subset> genericNames cs - dom b"
      proof -
        from grow obtain x where x: "x \<in> dom b1" "x \<notin> dom b" by blast
        with bound have "x \<in> genericNames cs - dom b" "x \<notin> genericNames cs - dom b1"
          by auto
        moreover have "genericNames cs - dom b1 \<subseteq> genericNames cs - dom b"
          using grow by blast
        ultimately show ?thesis by blast
      qed
      then have "card (genericNames cs - dom b1) < card (genericNames cs - dom b)"
        by (intro psubset_card_mono) (simp_all add: finite_genericNames)
      from less [OF this] obtain out where
        out: "solve cs b1 = Some out"
          "list_all nonNull cs \<longrightarrow> out \<noteq> NullDereference"
          "\<forall>r b'. out = Returned r b' \<longrightarrow>
             r \<and> b1 \<subseteq>\<^sub>m b' \<and> dom b' \<subseteq> dom b1 \<union> genericNames cs \<and>
             solve_pass cs b' False = Some (b', False)"
        by blast
      have "solve cs b = Some out"
        using Some p True out(1) by (subst solve.simps) simp
      moreover have "r \<and> b \<subseteq>\<^sub>m b' \<and> dom b' \<subseteq> dom b \<union> genericNames cs \<and>
          solve_pass cs b' False = Some (b', False)" if "out = Returned r b'" for r b'
      proof -
        from out(3) that have *: "r" "b1 \<subseteq>\<^sub>m b'" "dom b' \<subseteq> dom b1 \<union> genericNames cs"
          "solve_pass cs b' False = Some (b', False)" by simp_all
        have "b \<subseteq>\<^sub>m b'" using le *(2) by (rule map_le_trans)
        moreover have "dom b' \<subseteq> dom b \<union> genericNames cs" using *(3) bound by auto
        ultimately show ?thesis using * by simp
      qed
      ultimately show ?thesis using out(2) by blast
    qed
  qed
qed

text \<open>
  Claim C8: \<open>solve\<close> ends on every constraint list and every instantiator; it returns
  true when no pointer it dereferences is null, and stops at the null pointer otherwise.
  One iteration of its loop that reports a change has bound a name that was unbound, and
  one that reports none has left the bindings as they were, which ends the loop. The
  bindings only grow, and the names bound by a call are generic parameter names of the
  constraints: there are at most as many new bindings as distinct names.
\<close>

theorem solve_terminates:
  "(\<exists>out. solve cs b = Some out) \<and>
   (list_all nonNull cs \<longrightarrow> (\<exists>b'. solve cs b = Some (Returned True b'))) \<and>
   (\<forall>b' changed. solve_pass cs b False = Some (b', changed) \<longrightarrow>
      b \<subseteq>\<^sub>m b' \<and> (if changed then dom b \<subset> dom b' else b' = b)) \<and>
   (\<forall>r b'. solve cs b = Some (Returned r b') \<longrightarrow>
      b \<subseteq>\<^sub>m b' \<and> dom b' \<subseteq> dom b \<union> genericNames cs \<and>
      card (dom b' - dom b) \<le> card (genericNames cs))"
proof (intro conjI allI impI)
  show "\<exists>out. solve cs b = Some out"
    using solve_total [of cs b] by blast
next
  assume nn: "list_all nonNull cs"
  from solve_total [of cs b] obtain out where out: "solve cs b = Some out"
    "list_all nonNull cs \<longrightarrow> out \<noteq> NullDereference" "\<forall>r b'. out = Returned r b' \<longrightarrow> r"
    by blast
  with nn show "\<exists>b'. solve cs b = Some (Returned True b')"
    by (cases out) auto
next
  fix b' changed
  assume "solve_pass cs b False = Some (b', changed)"
  from solve_pass_props [OF this] show "b \<subseteq>\<^sub>m b'"
    and "if changed then dom b \<subset> dom b' else b' = b"
    by (simp_all split: if_splits)
next
  fix r b'
  assume ret: "solve cs b = Some (Returned r b')"
  with solve_total [of cs b] show le: "b \<subseteq>\<^sub>m b'"
    and bound: "dom b' \<subseteq> dom b \<union> genericNames cs"
    by auto
  have "dom b' - dom b \<subseteq> genericNames cs"
    using bound by auto
  then show "card (dom b' - dom b) \<le> card (genericNames cs)"
    by (rule card_mono [OF finite_genericNames])
qed

theorem solve_terminates_witness:
  "list_all nonNull example_constraints \<and>
   solve_pass example_constraints Map.empty False =
     Some ([''U'' \<mapsto> IntType, ''T'' \<mapsto> FloatType], True) \<and>
   dom (Map.empty :: GenericInstantiator) \<subset> dom [''U'' \<mapsto> IntType, ''T'' \<mapsto> FloatType] \<and>
   solve example_constraints Map.empty =
     Some (Returned True [''U'' \<mapsto> IntType, ''T'' \<mapsto> FloatType]) \<and>
   card (dom [''U'' \<mapsto> IntType, ''T'' \<mapsto> FloatType] - dom (Map.empty :: GenericInstantiator))
     \<le> card (genericNames example_constraints)"
proof -
  let ?b = "[''U'' \<mapsto> IntType, ''T'' \<mapsto> FloatType]"
  have nn: "list_all nonNull example_constraints"
    by (simp add: example_constraints_def)
  have p1: "solve_pass example_constraints Map.empty False = Some (?b, True)"
    by (simp add: example_constraints_def bindIfUnbound_def getBinding_def
        bindTypeVariable_def clone_def)
  have p2: "solve_pass example_constraints ?b False = Some (?b, False)"
    by (simp add: example_constraints_def bindIfUnbound_def getBinding_def
        bindTypeVariable_def clone_def)
  have s: "solve example_constraints Map.empty = Some (Returned True ?b)"
    by (subst solve.simps, simp add: p1, subst solve.simps, simp add: p2)
  from solve_terminates [of example_constraints Map.empty] nn p1 s show ?thesis
    by (auto simp del: dom_eq_empty_conv)
qed

section \<open>Properties of the inlining pass\<close>

lemma inlineLoop_inv:
  "inlineLoop IF calls (ch, M, inl) = Some (ch', M', inl') \<Longrightarrow>
   (c, Mc) \<in> set inl' \<Longrightarrow>
   (c, Mc) \<in> set inl \<or>
   (c \<in> set calls \<and> caller c \<noteq> callee c \<and>
    (\<exists>f. getFunction Mc (callee c) = Some f \<and> \<not> isRecursive f) \<and> IF Mc c \<noteq> None)"
proof (induction calls arbitrary: ch M inl)
  case Nil
  then show ?case by simp
next
  case (Cons call calls)
  show ?case
  proof (cases "caller call = callee call")
    case True
    with Cons.prems have "inlineLoop IF calls (ch, M, inl) = Some (ch', M', inl')" by simp
    from Cons.IH [OF this Cons.prems(2)] show ?thesis by auto
  next
    case neq: False
    with Cons.prems obtain f where f: "getFunction M (callee call) = Some f"
      by (auto split: option.splits)
    show ?thesis
    proof (cases "isRecursive f")
      case True
      with Cons.prems neq f have "inlineLoop IF calls (ch, M, inl) = Some (ch', M', inl')" by simp
      from Cons.IH [OF this Cons.prems(2)] show ?thesis by auto
    next
      case nonrec: False
      show ?thesis
      proof (cases "IF M call")
        case None
        with Cons.prems neq f nonrec
        have "inlineLoop IF calls (ch, M, inl) = Some (ch', M', inl')" by simp
        from Cons.IH [OF this Cons.prems(2)] show ?thesis by auto
      next
        case (Some M1)
        with Cons.prems neq f nonrec
        have "inlineLoop IF calls (True, M1, inl @ [(call, M)]) = Some (ch', M', inl')" by simp
        from Cons.IH [OF this Cons.prems(2)] show ?thesis
          using neq f nonrec Some by auto
      qed
    qed
  qed
qed

lemma callsToInline_should:
  "c \<in> set (callsToInline M) \<Longrightarrow> shouldInlineFunction (getFunction M (callee c))"
  by (auto simp: callsToInline_def split: if_splits InstKind.splits option.splits)

text \<open>
  Claim C4, as the code has it: \<open>g\<close> calls \<open>f\<close> and \<open>f\<close> calls \<open>g\<close>, so \<open>g\<close> is
  recursive through one callee, and the pass inlines \<open>g\<close> at the call in \<open>f\<close>. The pass
  looks for a call of the callee in the callee's own body only.
\<close>

theorem indirect_recursion_counterexample:
  "map_option (\<lambda>f. isRecursive f) (getFunction mutual_module ''g'') = Some False \<and>
   callsToInline mutual_module =
     [\<lparr>call_id = 0, caller = ''f'', callee = ''g''\<rparr>,
      \<lparr>call_id = 2, caller = ''g'', callee = ''f''\<rparr>] \<and>
   inlineSmallFunctions InlineFunction_model mutual_module =
     Some (True,
       [\<lparr>func_name = ''f'', isDeclaration = False,
         blocks = [[\<lparr>inst_id = 4, inst_kind = CallInst (Some ''f'')\<rparr>,
                    \<lparr>inst_id = 5, inst_kind = OtherInst\<rparr>,
                    \<lparr>inst_id = 1, inst_kind = OtherInst\<rparr>]]\<rparr>,
        \<lparr>func_name = ''g'', isDeclaration = False,
         blocks = [[\<lparr>inst_id = 2, inst_kind = CallInst (Some ''f'')\<rparr>,
                    \<lparr>inst_id = 3, inst_kind = OtherInst\<rparr>]]\<rparr>],
       [(\<lparr>call_id = 0, caller = ''f'', callee = ''g''\<rparr>, mutual_module)])"
  by code_simp

text \<open>A function that calls itself is left alone, at the call in itself and elsewhere.\<close>

lemma direct_recursion_example:
  "inlineSmallFunctions InlineFunction_model direct_module = Some (False, direct_module, [])"
  by code_simp

text \<open>
  Claim C4, amended: the pass never inlines a function that calls itself directly.
  Whatever \<open>InlineFunction\<close> does, every call that the pass inlines is one of the calls
  it collected, whose callee passed \<open>shouldInlineFunction\<close>; its callee is not its
  caller, and in the module as it was when the call was taken up the body of the callee
  held no call of the callee. Recursion through another function is not looked for.
\<close>

theorem inlined_callee_not_recursive:
  assumes "inlineSmallFunctions IF M = Some (changed, M', inlined)"
    and "(c, Mc) \<in> set inlined"
  shows "c \<in> set (callsToInline M) \<and> shouldInlineFunction (getFunction M (callee c)) \<and>
         caller c \<noteq> callee c \<and>
         (\<exists>f. getFunction Mc (callee c) = Some f \<and> \<not> isRecursive f)"
proof -
  from assms(1) have "inlineLoop IF (callsToInline M) (False, M, []) = Some (changed, M', inlined)"
    by (simp add: inlineSmallFunctions_def)
  from inlineLoop_inv [OF this assms(2)] show ?thesis
    by (auto simp: callsToInline_should)
qed

theorem inlined_callee_not_recursive_witness:
  "\<lparr>call_id = 0, caller = ''f'', callee = ''g''\<rparr> \<in> set (callsToInline mutual_module) \<and>
   (\<exists>f. getFunction mutual_module ''g'' = Some f \<and> \<not> isRecursive f)"
proof -
  let ?c = "\<lparr>call_id = 0, caller = ''f'', callee = ''g''\<rparr>"
  let ?M' = "[\<lparr>func_name = ''f'', isDeclaration = False,
         blocks = [[\<lparr>inst_id = 4, inst_kind = CallInst (Some ''f'')\<rparr>,
                    \<lparr>inst_id = 5, inst_kind = OtherInst\<rparr>,
                    \<lparr>inst_id = 1, inst_kind = OtherInst\<rparr>]]\<rparr>,
        \<lparr>func_name = ''g'', isDeclaration = False,
         blocks = [[\<lparr>inst_id = 2, inst_kind = CallInst (Some ''f'')\<rparr>,
                    \<lparr>inst_id = 3, inst_kind = OtherInst\<rparr>]]\<rparr>]"
  have run: "inlineSmallFunctions InlineFunction_model mutual_module =
      Some (True, ?M', [(?c, mutual_module)])"
    by code_simp
  from inlined_callee_not_recursive [OF run, of ?c mutual_module] show ?thesis
    by simp
qed

section \<open>Properties of the type-directed pass\<close>

subsection \<open>Casts\<close>

text \<open>
  A cast to the type of its operand is a bit cast of a value to its own type; the operand
  that replaces it has the same value.
\<close>

lemma same_type_cast:
  "typeOf operand = destTy \<Longrightarrow> eval env (CastInst opc operand destTy) = Some x \<Longrightarrow> eval env operand = Some x"
  by (cases opc; cases "eval env operand"; cases x; cases "the (eval env operand)")
     (auto simp: isIntegerTy_def split: if_splits)

text \<open>
  Claim C5 on \<open>sext (trunc x to i32) to i64\<close> with \<open>x = 2 ^ 32\<close>: the type of \<open>x\<close> is the
  destination of the outer cast, the pass puts \<open>x\<close> in the place of the outer cast, and
  the value changes from \<open>0\<close> to \<open>2 ^ 32\<close>. The pass does not ask whether the inner cast
  loses information.
\<close>

theorem cast_chain_example:
  "eliminateUnnecessaryTypeCast
     (CastInst SExt (CastInst Trunc (Argument 0 I64) I32) I64) resetStats =
     Some (Argument 0 I64, resetStats\<lparr>type_casts_eliminated := 1\<rparr>) \<and>
   eval (\<lambda>i. IntVal 64 4294967296) (CastInst SExt (CastInst Trunc (Argument 0 I64) I32) I64) =
     Some (IntVal 64 0) \<and>
   eval (\<lambda>i. IntVal 64 4294967296) (Argument 0 I64) = Some (IntVal 64 4294967296)"
  by (simp add: resetStats_def isIntegerTy_def signed_def)

subsection \<open>Powers of two\<close>

lemma isPowerOfTwo_exp: "isPowerOfTwo (2 ^ k)"
proof -
  have "(2 ^ k :: int) AND (2 ^ k - 1) = take_bit k (2 ^ k)"
    by (simp add: take_bit_eq_mask mask_eq_exp_minus_1)
  also have "\<dots> = 0" by (simp add: take_bit_eq_mod)
  finally show ?thesis by (simp add: isPowerOfTwo_def)
qed

lemma getShiftAmount_loop_exp: "getShiftAmount_loop (2 ^ k) n = n + int k"
proof (induction k arbitrary: n)
  case 0
  then show ?case by (subst getShiftAmount_loop.simps) simp
next
  case (Suc k)
  have "(1::int) < 2 ^ Suc k"
    by (rule one_less_power) simp_all
  then have "getShiftAmount_loop (2 ^ Suc k) n = getShiftAmount_loop (2 ^ k) (n + 1)"
    by (subst getShiftAmount_loop.simps) simp
  then show ?case by (simp add: Suc.IH)
qed

lemma signed_64: "- (2 ^ 63) \<le> x \<Longrightarrow> x < 2 ^ 63 \<Longrightarrow> signed 64 (take_bit 64 x) = x"
  by (simp add: signed_def signed_take_bit_take_bit signed_take_bit_int_eq_self)

lemma isIntegerConstant_range:
  "isIntegerConstant v = Some a \<Longrightarrow> - (2 ^ 63) \<le> a \<and> a < 2 ^ 63"
  by (cases v) (auto simp: INT64_MIN_def INT64_MAX_def split: if_splits)

lemma fmul_shift_value:
  assumes "- (2 ^ 63) \<le> a * 2 ^ k" "a * 2 ^ k < 2 ^ 63" "k < 64"
  shows "eval env (CastInst SIToFP (BinaryOperator Shl (ConstantInt I64 a) (ConstantInt I32 (int k))) Double)
         = Some (FloatVal (of_int (a * 2 ^ k)))"
proof -
  have k: "take_bit 32 (int k) = int k"
    using assms(3) by (simp add: take_bit_int_eq_self)
  have "take_bit 64 (take_bit 64 a * 2 ^ k) = take_bit 64 (a * 2 ^ k)"
    by (simp add: take_bit_eq_mod mod_mult_left_eq)
  then have "signed 64 (take_bit 64 (take_bit 64 a * 2 ^ k)) = a * 2 ^ k"
    using assms signed_64 by simp
  then show ?thesis using assms(3) k by (simp add: isIntegerTy_def)
qed

lemma div_exp_bounds:
  assumes "- (2 ^ 63) \<le> (a::int)" "a < 2 ^ 63"
  shows "- (2 ^ 63) \<le> a div 2 ^ k \<and> a div 2 ^ k < 2 ^ 63"
proof (cases "0 \<le> a")
  case True
  have "a div 2 ^ k \<le> a div 1"
    using True by (intro zdiv_mono2) simp_all
  moreover have "0 \<le> a div 2 ^ k"
    using True by (simp add: pos_imp_zdiv_nonneg_iff)
  ultimately show ?thesis using assms by simp
next
  case False
  then have neg: "a < 0" by simp
  have "a div 1 \<le> a div 2 ^ k"
    using neg by (intro zdiv_mono2_neg) simp_all
  moreover have "a div 2 ^ k < 0"
    using neg by (intro div_neg_pos_less0) simp_all
  ultimately show ?thesis using assms by simp
qed

lemma fdiv_shift_value:
  assumes "- (2 ^ 63) \<le> a" "a < 2 ^ 63" "k < 64"
  shows "eval env (CastInst SIToFP (BinaryOperator AShr (ConstantInt I64 a) (ConstantInt I32 (int k))) Double)
         = Some (FloatVal (of_int (a div 2 ^ k)))"
proof -
  have k: "take_bit 32 (int k) = int k"
    using assms(3) by (simp add: take_bit_int_eq_self)
  have a: "signed 64 (take_bit 64 a) = a"
    using assms signed_64 by simp
  have "signed 64 (take_bit 64 (a div 2 ^ k)) = a div 2 ^ k"
    using div_exp_bounds [OF assms(1,2)] signed_64 by simp
  then show ?thesis using assms(3) k a by (simp add: isIntegerTy_def)
qed

text \<open>
  A multiplication by \<open>2 ^ k\<close> becomes a shift to the left by \<open>k\<close>, and the shift has
  the value of the product as long as the product fits 64 bits.
\<close>

lemma fmul_rewrite_value:
  assumes "isIntegerConstant left = Some a" "isIntegerConstant right = Some (2 ^ k)"
    and "- (2 ^ 63) \<le> a * 2 ^ k" "a * 2 ^ k < 2 ^ 63"
  shows "map_option (\<lambda>r. eval env (fst r))
           (optimizeNumericOperation (BinaryOperator FMul left right) st) =
         Some (Some (FloatVal (of_int (a * 2 ^ k))))"
proof -
  from isIntegerConstant_range [OF assms(2)] have h: "(2::int) ^ k < 2 ^ 63" by simp
  have "k < 63"
    by (rule power_less_imp_less_exp [where a = "2::int"]) (use h in simp_all)
  then have k: "k < 64" by simp
  show ?thesis
    using assms(1,2) fmul_shift_value [OF assms(3,4) k, of env]
    by (simp add: isPowerOfTwo_exp getShiftAmount_def getShiftAmount_loop_exp)
qed

text \<open>
  A division by \<open>2 ^ k\<close> becomes an arithmetic shift to the right by \<open>k\<close>, whose value is
  the quotient rounded down to an integer.
\<close>

lemma fdiv_rewrite_value:
  assumes "isIntegerConstant left = Some a" "isIntegerConstant right = Some (2 ^ k)"
  shows "map_option (\<lambda>r. eval env (fst r))
           (optimizeNumericOperation (BinaryOperator FDiv left right) st) =
         Some (Some (FloatVal (of_int (a div 2 ^ k))))"
proof -
  from isIntegerConstant_range [OF assms(2)] have h: "(2::int) ^ k < 2 ^ 63" by simp
  have "k < 63"
    by (rule power_less_imp_less_exp [where a = "2::int"]) (use h in simp_all)
  then have k: "k < 64" by simp
  from isIntegerConstant_range [OF assms(1)] have a: "- (2 ^ 63) \<le> a" "a < 2 ^ 63" by simp_all
  show ?thesis
    using assms(1,2) fdiv_shift_value [OF a k, of env]
    by (simp add: isPowerOfTwo_exp getShiftAmount_def getShiftAmount_loop_exp)
qed

text \<open>
  Claim C6 on \<open>7.0 / 4.0\<close>: both operands are integer-valued constants and the divisor
  is a power of two, so the pass replaces the division by \<open>7 >> 2\<close> cast to a double.
  The division is \<open>1.75\<close>, the shift is \<open>1\<close>.
\<close>

theorem fdiv_shift_example:
  "optimizeNumericOperation (BinaryOperator FDiv (ConstantFP 7) (ConstantFP 4)) resetStats =
     Some (CastInst SIToFP (BinaryOperator AShr (ConstantInt I64 7) (ConstantInt I32 2)) Double,
           resetStats\<lparr>numeric_optimizations := 1, division_to_shifts := 1\<rparr>) \<and>
   eval (\<lambda>i. FloatVal 0) (BinaryOperator FDiv (ConstantFP 7) (ConstantFP 4)) =
     Some (FloatVal (7 / 4)) \<and>
   eval (\<lambda>i. FloatVal 0)
     (CastInst SIToFP (BinaryOperator AShr (ConstantInt I64 7) (ConstantInt I32 2)) Double) =
     Some (FloatVal 1)"
proof -
  have "optimizeNumericOperation (BinaryOperator FDiv (ConstantFP 7) (ConstantFP 4)) resetStats =
     Some (CastInst SIToFP (BinaryOperator AShr (ConstantInt I64 7) (ConstantInt I32 2)) Double,
           resetStats\<lparr>numeric_optimizations := 1, division_to_shifts := 1\<rparr>)"
    by code_simp
  then show ?thesis
    by (simp add: isIntegerTy_def signed_def)
qed

section \<open>Properties of the optimization manager\<close>





end
